theory Spec2Isabelle
  imports Complex_Main "HOL-Library.AList"
begin

section \<open>Configuration (config.py)\<close>

text \<open>
  The game settings of \<^verbatim>\<open>Config\<close>. Python floats are modelled by reals: a
  decimal literal by the number it spells, sums and differences exactly. The one product
  of the code, the referral bonus, is rounded as binary floating point rounds it
  (\<open>binary64\<close> below), since that rounding shows in its value.
\<close>

definition CLICK_REWARD :: real where
  "CLICK_REWARD = 0.2"

definition CLICK_COOLDOWN :: int where
  "CLICK_COOLDOWN = 3600"

definition CLICK_REFERRAL_PERCENT :: int where
  "CLICK_REFERRAL_PERCENT = 10"

definition WITHDRAWAL_AMOUNTS :: "int list" where
  "WITHDRAWAL_AMOUNTS = [15, 25, 50, 100]"

section \<open>Python builtins used by the handlers\<close>

definition is_digit :: "char \<Rightarrow> bool" where
  "is_digit c = (48 \<le> (of_char c :: nat) \<and> (of_char c :: nat) \<le> 57)"

definition digit_val :: "char \<Rightarrow> nat" where
  "digit_val c = (of_char c :: nat) - 48"

definition nat_of_digits :: "string \<Rightarrow> nat" where
  "nat_of_digits ds = foldl (\<lambda>n c. 10 * n + digit_val c) 0 ds"

text \<open>\<^verbatim>\<open>str(n)\<close> for an integer, as an f-string prints it.\<close>

function str_nat :: "nat \<Rightarrow> string" where
  "str_nat n =
     (if n < 10 then [''0123456789'' ! n]
      else str_nat (n div 10) @ [''0123456789'' ! (n mod 10)])"
  by pat_completeness auto
termination
  by (relation "measure id") auto

definition str_int :: "int \<Rightarrow> string" where
  "str_int i = (if i < 0 then CHR ''-'' # str_nat (nat (- i)) else str_nat (nat i))"

text \<open>\<^verbatim>\<open>s.split("_")\<close>: the pieces between underscores, empty pieces kept.\<close>

fun split_on :: "char \<Rightarrow> string \<Rightarrow> string list" where
  "split_on d [] = [[]]"
| "split_on d (c # cs) =
     (if c = d then [] # split_on d cs
      else (case split_on d cs of
              [] \<Rightarrow> [[c]]
            | p # ps \<Rightarrow> (c # p) # ps))"

text \<open>
  \<^verbatim>\<open>s.split()\<close>: the maximal runs of non-whitespace characters. Strings are byte
  strings here, so only the ASCII whitespace characters separate.
\<close>

definition is_space :: "char \<Rightarrow> bool" where
  "is_space c = ((of_char c :: nat) = 32 \<or> (9 \<le> (of_char c :: nat) \<and> (of_char c :: nat) \<le> 13)
                 \<or> (28 \<le> (of_char c :: nat) \<and> (of_char c :: nat) \<le> 31))"

fun split_ws_aux :: "string \<Rightarrow> string \<Rightarrow> string list" where
  "split_ws_aux cur [] = (if cur = [] then [] else [rev cur])"
| "split_ws_aux cur (c # cs) =
     (if is_space c then (if cur = [] then split_ws_aux [] cs else rev cur # split_ws_aux [] cs)
      else split_ws_aux (c # cur) cs)"

definition split_ws :: "string \<Rightarrow> string list" where
  "split_ws s = split_ws_aux [] s"

text \<open>Python strips the whitespace around the text of a number.\<close>

definition strip :: "string \<Rightarrow> string" where
  "strip s = rev (dropWhile is_space (rev (dropWhile is_space s)))"

definition strip_sign :: "string \<Rightarrow> bool \<times> string" where
  "strip_sign s =
     (case s of
        [] \<Rightarrow> (False, [])
      | c # cs \<Rightarrow>
          if c = CHR ''-'' then (True, cs)
          else if c = CHR ''+'' then (False, cs)
          else (False, s))"

text \<open>
  A run of digits in which single underscores may separate digits (\<^verbatim>\<open>1_000\<close>); the
  answer is the digits without the underscores.
\<close>

fun digitpart :: "string \<Rightarrow> string option" where
  "digitpart [] = None"
| "digitpart [c] = (if is_digit c then Some [c] else None)"
| "digitpart (c # d # cs) =
     (if \<not> is_digit c then None
      else case (if d = CHR ''_'' then digitpart cs else digitpart (d # cs)) of
             None \<Rightarrow> None
           | Some ds \<Rightarrow> Some (c # ds))"

text \<open>
  \<^verbatim>\<open>int(s)\<close>: whitespace around, an optional sign, a run of digits; \<open>None\<close> is the
  \<^verbatim>\<open>ValueError\<close>. Strings are byte strings here: the decimal digits that Unicode
  has outside ASCII are not represented.
\<close>

definition py_int :: "string \<Rightarrow> int option" where
  "py_int s =
     (let (neg, body) = strip_sign (strip s)
      in case digitpart body of
           None \<Rightarrow> None
         | Some ds \<Rightarrow> Some ((if neg then - 1 else 1) * int (nat_of_digits ds)))"

text \<open>The values of a Python float; the finite ones are reals.\<close>

datatype pyfloat = Finite real | Pos_inf | Neg_inf | Nan

definition lower :: "char \<Rightarrow> char" where
  "lower c =
     (case map_of (zip ''ABCDEFGHIJKLMNOPQRSTUVWXYZ'' ''abcdefghijklmnopqrstuvwxyz'') c of
        None \<Rightarrow> c
      | Some l \<Rightarrow> l)"

definition is_e :: "char \<Rightarrow> bool" where
  "is_e c = (c = CHR ''e'' \<or> c = CHR ''E'')"

text \<open>
  The part of a float before the exponent: digits, digits with a fraction,
  \<^verbatim>\<open>5.\<close> or \<^verbatim>\<open>.5\<close>.
\<close>

definition mantissa :: "string \<Rightarrow> real option" where
  "mantissa s =
     (let ip = takeWhile (\<lambda>c. c \<noteq> CHR ''.'') s;
          rest = dropWhile (\<lambda>c. c \<noteq> CHR ''.'') s
      in case rest of
           [] \<Rightarrow> map_option (\<lambda>ds. real (nat_of_digits ds)) (digitpart ip)
         | _ # fp \<Rightarrow>
             if ip = [] then
               map_option (\<lambda>fs. real (nat_of_digits fs) / 10 ^ length fs) (digitpart fp)
             else if fp = [] then
               map_option (\<lambda>ds. real (nat_of_digits ds)) (digitpart ip)
             else
               (case (digitpart ip, digitpart fp) of
                  (Some ds, Some fs) \<Rightarrow>
                    Some (real (nat_of_digits ds) + real (nat_of_digits fs) / 10 ^ length fs)
                | _ \<Rightarrow> None))"

definition exponent :: "string \<Rightarrow> int option" where
  "exponent s =
     (let (neg, body) = strip_sign s
      in map_option (\<lambda>ds. (if neg then - 1 else 1) * int (nat_of_digits ds)) (digitpart body))"

definition ten_to :: "int \<Rightarrow> real" where
  "ten_to k = (if 0 \<le> k then 10 ^ nat k else 1 / 10 ^ nat (- k))"

text \<open>From this magnitude on, a decimal rounds to an infinity.\<close>

definition float_max_bound :: real where
  "float_max_bound = 2 ^ 1024 - 2 ^ 970"

text \<open>
  \<^verbatim>\<open>float(s)\<close>: whitespace around, an optional sign, then \<^verbatim>\<open>inf\<close>,
  \<^verbatim>\<open>infinity\<close> or \<^verbatim>\<open>nan\<close> in any case, or a decimal with an optional
  exponent; \<open>None\<close> is the \<^verbatim>\<open>ValueError\<close>. A finite value is the decimal that
  the text spells. Strings are byte strings here: the decimal digits that Unicode has
  outside ASCII are not represented.
\<close>

definition py_float :: "string \<Rightarrow> pyfloat option" where
  "py_float s =
     (let (neg, body) = strip_sign (strip s);
          word = map lower body
      in if word = ''inf'' \<or> word = ''infinity'' then Some (if neg then Neg_inf else Pos_inf)
         else if word = ''nan'' then Some Nan
         else let m = mantissa (takeWhile (\<lambda>c. \<not> is_e c) body);
                  rest = dropWhile (\<lambda>c. \<not> is_e c) body;
                  k = (case rest of [] \<Rightarrow> Some 0 | _ # ex \<Rightarrow> exponent ex)
              in case (m, k) of
                   (Some v, Some n) \<Rightarrow>
                     if float_max_bound \<le> v * ten_to n
                     then Some (if neg then Neg_inf else Pos_inf)
                     else Some (Finite ((if neg then - 1 else 1) * (v * ten_to n)))
                 | _ \<Rightarrow> None)"

section \<open>Binary floating point\<close>

text \<open>
  The double nearest to a real, ties to the even significand: the result of a float
  operation on the exact result of the operation. \<open>exponent_from\<close> finds the binary
  exponent of a positive number by halving or doubling; the exponents of the doubles lie
  between -1074 and 1023, so 2100 steps reach every one of them. Results beyond the
  largest double (the infinities) are not represented.
\<close>

definition round_half_even :: "real \<Rightarrow> int" where
  "round_half_even x =
     (let f = \<lfloor>x\<rfloor>; d = x - of_int f
      in if d < 1 / 2 then f
         else if 1 / 2 < d then f + 1
         else if even f then f else f + 1)"

fun exponent_from :: "nat \<Rightarrow> real \<Rightarrow> int \<Rightarrow> int" where
  "exponent_from 0 x e = e"
| "exponent_from (Suc n) x e =
     (if 2 \<le> x then exponent_from n (x / 2) (e + 1)
      else if x < 1 then exponent_from n (2 * x) (e - 1)
      else e)"

definition two_to :: "int \<Rightarrow> real" where
  "two_to k = (if 0 \<le> k then 2 ^ nat k else 1 / 2 ^ nat (- k))"

definition binary64 :: "real \<Rightarrow> real" where
  "binary64 x =
     (if x = 0 then 0
      else let e = max (exponent_from 2100 \<bar>x\<bar> 0) (- 1022);
               ulp = two_to (e - 52)
           in sgn x * of_int (round_half_even (\<bar>x\<bar> / ulp)) * ulp)"

section \<open>The tables of the store\<close>

text \<open>
  The rows of the tables \<^verbatim>\<open>users\<close>, \<^verbatim>\<open>transactions\<close>, \<^verbatim>\<open>withdrawals\<close>,
  \<^verbatim>\<open>sponsors\<close> and \<^verbatim>\<open>user_sponsors\<close>, with the columns the code writes.
  \<^verbatim>\<open>users\<close> is keyed by \<^verbatim>\<open>user_id\<close> and \<^verbatim>\<open>user_sponsors\<close> by
  \<^verbatim>\<open>(user_id, sponsor_id)\<close>, the conflict targets of the two upserts.
\<close>

record user_row =
  username :: string
  referrer_id :: "int option"
  created_at :: int
  balance :: real
  last_click :: "int option"

text \<open>
  The descriptions of transactions are fixed Russian texts with one interpolated value;
  each template is a constructor, its argument the interpolated value:
  \<open>Memo_clicker\<close> is the text of a click, \<open>Memo_referral_click who\<close> is
  "10% of the click of user \<open>who\<close>", \<open>Memo_withdrawal n\<close> is "Withdrawal #\<open>n\<close>".
\<close>

datatype memo = Memo_clicker | Memo_referral_click string | Memo_withdrawal int

record transaction_row =
  tx_user_id :: int
  tx_amount :: real
  tx_type :: string
  tx_description :: memo
  tx_created_at :: int

record withdrawal_row =
  wd_id :: int
  wd_user_id :: int
  wd_amount :: real
  wd_status :: string
  wd_created_at :: int

record sponsor_row =
  sp_id :: int
  channel_username :: string
  channel_url :: string

record user_sponsor_row =
  is_subscribed :: bool
  last_check :: int

text \<open>
  The store, as the bot sees it through the Supabase client. \<open>active_referrals\<close> is the
  number of rows the stored procedure \<^verbatim>\<open>get_active_referrals\<close> returns for a user:
  the procedure is not part of the Python sources, so its answer is a component of the
  store. \<open>outages\<close> schedules the failures of the store: each round trip
  (\<^verbatim>\<open>.execute()\<close>) takes the head of the list, and \<open>True\<close> makes that round trip
  raise; an empty schedule means that no further round trip fails.
\<close>

record world =
  users :: "(int \<times> user_row) list"
  transactions :: "transaction_row list"
  withdrawals :: "withdrawal_row list"
  sponsors :: "sponsor_row list"
  user_sponsors :: "((int \<times> int) \<times> user_sponsor_row) list"
  active_referrals :: "int \<Rightarrow> nat"
  outages :: "bool list"

definition execute :: "world \<Rightarrow> bool \<times> world" where
  "execute w =
     (case outages w of
        [] \<Rightarrow> (False, w)
      | f # fs \<Rightarrow> (f, w\<lparr>outages := fs\<rparr>))"

section \<open>Database (database.py)\<close>

text \<open>
  Every method wraps its round trips in \<^verbatim>\<open>try/except Exception\<close>, logs the error
  and returns a default; the default is the branch taken when \<open>execute\<close> raises.
\<close>

definition get_user :: "world \<Rightarrow> int \<Rightarrow> user_row option \<times> world" where
  "get_user w uid =
     (let (raised, w1) = execute w
      in if raised then (None, w1) else (map_of (users w1) uid, w1))"

definition create_user :: "world \<Rightarrow> int \<Rightarrow> string option \<Rightarrow> int option \<Rightarrow> int \<Rightarrow> bool \<times> world" where
  "create_user w uid uname ref now =
     (let user_data = \<lparr>username = (case uname of
                                      None \<Rightarrow> ''user_'' @ str_int uid
                                    | Some n \<Rightarrow> if n = [] then ''user_'' @ str_int uid else n),
                       referrer_id = ref,
                       created_at = now,
                       balance = 0,
                       last_click = None\<rparr>;
          (raised, w1) = execute w
      in if raised then (False, w1)
         else (True, w1\<lparr>users := AList.update uid user_data (users w1)\<rparr>))"

text \<open>The second round trip of \<^verbatim>\<open>update_balance\<close>: the update that writes the new balance.\<close>

definition write_balance :: "world \<Rightarrow> int \<Rightarrow> real \<Rightarrow> bool \<times> world" where
  "write_balance w uid new_balance =
     (let (raised, w1) = execute w
      in if raised then (False, w1)
         else (map_of (users w1) uid \<noteq> None,
               w1\<lparr>users := AList.map_entry uid (\<lambda>r. r\<lparr>balance := new_balance\<rparr>) (users w1)\<rparr>))"

definition update_balance :: "world \<Rightarrow> int \<Rightarrow> real \<Rightarrow> bool \<times> world" where
  "update_balance w uid amount =
     (let (user, w1) = get_user w uid
      in case user of
           None \<Rightarrow> (False, w1)
         | Some u \<Rightarrow> write_balance w1 uid (balance u + amount))"

definition update_last_click :: "world \<Rightarrow> int \<Rightarrow> int \<Rightarrow> bool \<times> world" where
  "update_last_click w uid timestamp =
     (let (raised, w1) = execute w
      in if raised then (False, w1)
         else (map_of (users w1) uid \<noteq> None,
               w1\<lparr>users := AList.map_entry uid (\<lambda>r. r\<lparr>last_click := Some timestamp\<rparr>) (users w1)\<rparr>))"

definition get_sponsors :: "world \<Rightarrow> sponsor_row list \<times> world" where
  "get_sponsors w =
     (let (raised, w1) = execute w
      in if raised then ([], w1) else (sponsors w1, w1))"

definition update_user_sponsor_status :: "world \<Rightarrow> int \<Rightarrow> int \<Rightarrow> bool \<Rightarrow> int \<Rightarrow> bool \<times> world" where
  "update_user_sponsor_status w uid sid flag now =
     (let (raised, w1) = execute w
      in if raised then (False, w1)
         else (True, w1\<lparr>user_sponsors :=
                 AList.update (uid, sid) \<lparr>is_subscribed = flag, last_check = now\<rparr> (user_sponsors w1)\<rparr>))"

text \<open>
  Modelled from the spec: the stored procedure \<^verbatim>\<open>get_user_sponsors_status\<close> is not
  part of the Python sources. It answers one row per configured sponsor, carrying the
  \<^verbatim>\<open>is_subscribed\<close> flag recorded for the user and that sponsor, or no flag when
  nothing is recorded for the pair.
\<close>

definition rpc_get_user_sponsors_status :: "world \<Rightarrow> int \<Rightarrow> (int \<times> bool option) list" where
  "rpc_get_user_sponsors_status w uid =
     map (\<lambda>s. (sp_id s, map_option is_subscribed (map_of (user_sponsors w) (uid, sp_id s))))
         (sponsors w)"

definition get_user_sponsors_status :: "world \<Rightarrow> int \<Rightarrow> (int \<times> bool option) list \<times> world" where
  "get_user_sponsors_status w uid =
     (let (raised, w1) = execute w
      in if raised then ([], w1) else (rpc_get_user_sponsors_status w1 uid, w1))"

text \<open>
  \<^verbatim>\<open>get_user_referrals\<close>: two round trips inside one \<^verbatim>\<open>try\<close>; a failure of
  either gives \<open>(0, 0)\<close>, and a failure of the first skips the second.
\<close>

definition get_user_referrals :: "world \<Rightarrow> int \<Rightarrow> (nat \<times> nat) \<times> world" where
  "get_user_referrals w uid =
     (let (raised, w1) = execute w
      in if raised then ((0, 0), w1)
         else let total = length (filter (\<lambda>(k, r). referrer_id r = Some uid) (users w1));
                  (raised2, w2) = execute w1
              in if raised2 then ((0, 0), w2)
                 else ((total, active_referrals w2 uid), w2))"

definition add_transaction :: "world \<Rightarrow> int \<Rightarrow> real \<Rightarrow> string \<Rightarrow> memo \<Rightarrow> int \<Rightarrow> bool \<times> world" where
  "add_transaction w uid amount kind description now =
     (let (raised, w1) = execute w
      in if raised then (False, w1)
         else (True, w1\<lparr>transactions := transactions w1 @
                 [\<lparr>tx_user_id = uid, tx_amount = amount, tx_type = kind,
                   tx_description = description, tx_created_at = now\<rparr>]\<rparr>))"

text \<open>
  \<^verbatim>\<open>create_withdrawal\<close>: the store numbers the rows; the new row gets the next number.
\<close>

definition create_withdrawal :: "world \<Rightarrow> int \<Rightarrow> real \<Rightarrow> int \<Rightarrow> withdrawal_row option \<times> world" where
  "create_withdrawal w uid amount now =
     (let (raised, w1) = execute w
      in if raised then (None, w1)
         else let row = \<lparr>wd_id = int (length (withdrawals w1)) + 1, wd_user_id = uid,
                          wd_amount = amount, wd_status = ''pending'', wd_created_at = now\<rparr>
              in (Some row, w1\<lparr>withdrawals := withdrawals w1 @ [row]\<rparr>))"

section \<open>Helpers of the bot (bot.py)\<close>

text \<open>
  \<^verbatim>\<open>check_subscriptions\<close>: an empty answer counts as "no sponsors"; otherwise the loop
  returns \<open>False\<close> at the first row whose \<^verbatim>\<open>is_subscribed\<close> is missing, null or
  false. The method of the database never raises, so the \<^verbatim>\<open>except\<close> branch of
  this function is not reached.
\<close>

fun all_subscribed :: "(int \<times> bool option) list \<Rightarrow> bool" where
  "all_subscribed [] = True"
| "all_subscribed (sponsor # rest) =
     (if snd sponsor \<noteq> Some True then False else all_subscribed rest)"

definition check_subscriptions :: "world \<Rightarrow> int \<Rightarrow> bool \<times> world" where
  "check_subscriptions w uid =
     (let (sponsors_status, w1) = get_user_sponsors_status w uid
      in if sponsors_status = [] then (True, w1)
         else (all_subscribed sponsors_status, w1))"

datatype screen = Sponsors_prompt "sponsor_row list" | Main_menu real

definition show_main_menu :: "world \<Rightarrow> int \<Rightarrow> screen \<times> world" where
  "show_main_menu w uid =
     (let (user, w1) = get_user w uid
      in (Main_menu (case user of None \<Rightarrow> 0 | Some u \<Rightarrow> balance u), w1))"

definition show_sponsors_message :: "world \<Rightarrow> int \<Rightarrow> screen \<times> world" where
  "show_sponsors_message w uid =
     (let (sps, w1) = get_sponsors w
      in if sps = [] then show_main_menu w1 uid else (Sponsors_prompt sps, w1))"

section \<open>The command /start\<close>

text \<open>
  The referrer is the second word of the message when it reads as an integer other than
  the user's own id. \<open>uname\<close> is the Telegram username, \<open>first_name\<close> the first name;
  \<open>now\<close> is the clock.
\<close>

definition start_referrer :: "int \<Rightarrow> string \<Rightarrow> int option" where
  "start_referrer uid text =
     (case split_ws text of
        _ # arg # _ \<Rightarrow>
          (case py_int arg of
             None \<Rightarrow> None
           | Some r \<Rightarrow> if r = uid then None else Some r)
      | _ \<Rightarrow> None)"

definition cmd_start :: "world \<Rightarrow> int \<Rightarrow> string option \<Rightarrow> string \<Rightarrow> string \<Rightarrow> int \<Rightarrow> screen \<times> world" where
  "cmd_start w uid uname first_name text now =
     (let name = (case uname of
                    None \<Rightarrow> first_name
                  | Some n \<Rightarrow> if n = [] then first_name else n);
          w1 = snd (create_user w uid (Some name) (start_referrer uid text) now);
          (sub, w2) = check_subscriptions w1 uid
      in if \<not> sub then show_sponsors_message w2 uid else show_main_menu w2 uid)"

section \<open>The callback handlers\<close>

text \<open>
  \<^verbatim>\<open>handle_check_subscriptions\<close>: every configured sponsor is recorded as subscribed
  for the user, without a check of the membership.
\<close>

fun mark_subscribed :: "world \<Rightarrow> int \<Rightarrow> int \<Rightarrow> sponsor_row list \<Rightarrow> world" where
  "mark_subscribed w uid now [] = w"
| "mark_subscribed w uid now (sponsor # rest) =
     mark_subscribed (snd (update_user_sponsor_status w uid (sp_id sponsor) True now)) uid now rest"

definition handle_check_subscriptions :: "world \<Rightarrow> int \<Rightarrow> int \<Rightarrow> world" where
  "handle_check_subscriptions w uid now =
     (let (sps, w1) = get_sponsors w
      in mark_subscribed w1 uid now sps)"

subsection \<open>The clicker\<close>

datatype click_result =
    Click_subscribe_first
  | Click_no_user
  | Click_cooldown int
  | Click_rewarded real real
  | Click_type_error

text \<open>
  The cooldown test of \<^verbatim>\<open>handle_click\<close>,
  \<^verbatim>\<open>last_click and (current_time - last_click) < Config.CLICK_COOLDOWN\<close>:
  a missing and a zero \<^verbatim>\<open>last_click\<close> are both falsy. The answer is the
  remaining time when the cooldown holds the click back.
\<close>

definition cooldown_remaining :: "int option \<Rightarrow> int \<Rightarrow> int option" where
  "cooldown_remaining lc current_time =
     (case lc of
        None \<Rightarrow> None
      | Some t \<Rightarrow>
          if t \<noteq> 0 \<and> current_time - t < CLICK_COOLDOWN
          then Some (CLICK_COOLDOWN - (current_time - t))
          else None)"

text \<open>
  The handler up to the cooldown test: the early answers on the left, the row of the
  user that was read on the right.
\<close>

definition click_gate :: "world \<Rightarrow> int \<Rightarrow> int \<Rightarrow> (click_result + user_row) \<times> world" where
  "click_gate w uid current_time =
     (let (sub, w1) = check_subscriptions w uid
      in if \<not> sub then (Inl Click_subscribe_first, w1)
         else let (user, w2) = get_user w1 uid
              in case user of
                   None \<Rightarrow> (Inl Click_no_user, w2)
                 | Some u \<Rightarrow>
                     (case cooldown_remaining (last_click u) current_time of
                        Some remaining \<Rightarrow> (Inl (Click_cooldown remaining), w2)
                      | None \<Rightarrow> (Inr u, w2)))"

text \<open>
  The referral part: \<^verbatim>\<open>if referrer_id:\<close> skips a missing and a zero referrer. The
  description names the clicking user by username, or by id when there is none. The bonus
  is \<^verbatim>\<open>reward * (Config.CLICK_REFERRAL_PERCENT / 100)\<close> in float arithmetic: the
  quotient of the integers 10 and 100 is rounded to a double, and so is its product with
  the double of the reward.
\<close>

definition referral_bonus :: real where
  "referral_bonus =
     binary64 (binary64 CLICK_REWARD * binary64 (real_of_int CLICK_REFERRAL_PERCENT / 100))"

text \<open>\<^verbatim>\<open>callback.from_user.username or user_id\<close>, as the description prints it.\<close>

definition source_name :: "int \<Rightarrow> string option \<Rightarrow> string" where
  "source_name uid uname =
     (case uname of
        None \<Rightarrow> str_int uid
      | Some n \<Rightarrow> if n = [] then str_int uid else n)"

definition click_referral :: "world \<Rightarrow> int \<Rightarrow> string option \<Rightarrow> int \<Rightarrow> user_row \<Rightarrow> world" where
  "click_referral w uid uname current_time u =
     (case referrer_id u of
        None \<Rightarrow> w
      | Some r \<Rightarrow>
          if r = 0 then w
          else let w1 = snd (update_balance w r referral_bonus)
               in snd (add_transaction w1 r referral_bonus ''referral_income''
                         (Memo_referral_click (source_name uid uname)) current_time))"

text \<open>
  The handler after the cooldown test. The answer shows the balance read again at the
  end; when that read gives no row, subscripting it raises a \<^verbatim>\<open>TypeError\<close>.
\<close>

definition click_reward :: "world \<Rightarrow> int \<Rightarrow> string option \<Rightarrow> int \<Rightarrow> user_row \<Rightarrow> click_result \<times> world" where
  "click_reward w uid uname current_time u =
     (let reward = CLICK_REWARD;
          w1 = snd (update_balance w uid reward);
          w2 = snd (update_last_click w1 uid current_time);
          w3 = snd (add_transaction w2 uid reward ''click'' Memo_clicker current_time);
          w4 = click_referral w3 uid uname current_time u;
          (user, w5) = get_user w4 uid
      in case user of
           None \<Rightarrow> (Click_type_error, w5)
         | Some u2 \<Rightarrow> (Click_rewarded reward (balance u2), w5))"

definition handle_click :: "world \<Rightarrow> int \<Rightarrow> string option \<Rightarrow> int \<Rightarrow> click_result \<times> world" where
  "handle_click w uid uname current_time =
     (case click_gate w uid current_time of
        (Inl answer, w1) \<Rightarrow> (answer, w1)
      | (Inr u, w1) \<Rightarrow> click_reward w1 uid uname current_time u)"

subsection \<open>Withdrawals\<close>

datatype menu_result = Menu_subscribe_first | Menu_amounts "string list"

definition handle_withdraw_menu :: "world \<Rightarrow> int \<Rightarrow> menu_result \<times> world" where
  "handle_withdraw_menu w uid =
     (let (sub, w1) = check_subscriptions w uid
      in if \<not> sub then (Menu_subscribe_first, w1)
         else (Menu_amounts (map (\<lambda>amount. ''withdraw_'' @ str_int amount) WITHDRAWAL_AMOUNTS), w1))"

datatype withdraw_result =
    Withdraw_bad_amount
  | Withdraw_no_user
  | Withdraw_insufficient_balance real
  | Withdraw_need_referrals nat
  | Withdraw_create_failed
  | Withdraw_created int real

text \<open>The balance test and the referral test of \<^verbatim>\<open>handle_withdraw\<close>.\<close>

definition withdraw_gate :: "world \<Rightarrow> int \<Rightarrow> real \<Rightarrow> withdraw_result option \<times> world" where
  "withdraw_gate w uid amount =
     (let (user, w1) = get_user w uid
      in case user of
           None \<Rightarrow> (Some Withdraw_no_user, w1)
         | Some u \<Rightarrow>
             if balance u < amount then (Some (Withdraw_insufficient_balance (balance u)), w1)
             else let ((total_ref, active_ref), w2) = get_user_referrals w1 uid
                  in if active_ref < 3 then (Some (Withdraw_need_referrals active_ref), w2)
                     else (None, w2))"

text \<open>
  The creation of the request and the debit. Only the result of
  \<^verbatim>\<open>create_withdrawal\<close> is tested; the results of \<^verbatim>\<open>update_balance\<close> and
  \<^verbatim>\<open>add_transaction\<close> are dropped.
\<close>

definition withdraw_commit :: "world \<Rightarrow> int \<Rightarrow> real \<Rightarrow> int \<Rightarrow> withdraw_result \<times> world" where
  "withdraw_commit w uid amount now =
     (let (withdrawal, w1) = create_withdrawal w uid amount now
      in case withdrawal of
           None \<Rightarrow> (Withdraw_create_failed, w1)
         | Some row \<Rightarrow>
             let w2 = snd (update_balance w1 uid (- amount));
                 w3 = snd (add_transaction w2 uid (- amount) ''withdrawal''
                             (Memo_withdrawal (wd_id row)) now)
             in (Withdraw_created (wd_id row) amount, w3))"

definition request_withdrawal :: "world \<Rightarrow> int \<Rightarrow> real \<Rightarrow> int \<Rightarrow> withdraw_result \<times> world" where
  "request_withdrawal w uid amount now =
     (case withdraw_gate w uid amount of
        (Some answer, w1) \<Rightarrow> (answer, w1)
      | (None, w1) \<Rightarrow> withdraw_commit w1 uid amount now)"

text \<open>
  The same steps for an amount that is an infinity or not a number. The test
  \<^verbatim>\<open>user['balance'] < amount\<close> is true for the positive infinity only. An insert of
  such an amount cannot be sent, since JSON has no text for it: the call raises inside
  the \<^verbatim>\<open>try\<close> of \<^verbatim>\<open>create_withdrawal\<close>, which answers \<open>None\<close>.
\<close>

definition withdraw_nonfinite :: "world \<Rightarrow> int \<Rightarrow> pyfloat \<Rightarrow> withdraw_result \<times> world" where
  "withdraw_nonfinite w uid amount =
     (let (user, w1) = get_user w uid
      in case user of
           None \<Rightarrow> (Withdraw_no_user, w1)
         | Some u \<Rightarrow>
             if amount = Pos_inf then (Withdraw_insufficient_balance (balance u), w1)
             else let ((total_ref, active_ref), w2) = get_user_referrals w1 uid
                  in if active_ref < 3 then (Withdraw_need_referrals active_ref, w2)
                     else (Withdraw_create_failed, snd (execute w2)))"

text \<open>
  \<^verbatim>\<open>handle_withdraw\<close> receives every callback whose data starts with
  \<^verbatim>\<open>withdraw_\<close>; the amount is the float read from the second piece of the data.
  A missing piece or an unreadable one ends in the bare \<^verbatim>\<open>except\<close>.
\<close>

definition handle_withdraw :: "world \<Rightarrow> int \<Rightarrow> string \<Rightarrow> int \<Rightarrow> withdraw_result \<times> world" where
  "handle_withdraw w uid data now =
     (case split_on (CHR ''_'') data of
        _ # piece # _ \<Rightarrow>
          (case py_float piece of
             None \<Rightarrow> (Withdraw_bad_amount, w)
           | Some (Finite amount) \<Rightarrow> request_withdrawal w uid amount now
           | Some amount \<Rightarrow> withdraw_nonfinite w uid amount)
      | _ \<Rightarrow> (Withdraw_bad_amount, w))"

subsection \<open>The profile\<close>

datatype profile_result =
    Profile_subscribe_first
  | Profile_no_user
  | Profile_view real nat nat "int option"

definition handle_profile :: "world \<Rightarrow> int \<Rightarrow> int \<Rightarrow> profile_result \<times> world" where
  "handle_profile w uid current_time =
     (let (sub, w1) = check_subscriptions w uid
      in if \<not> sub then (Profile_subscribe_first, w1)
         else let (user, w2) = get_user w1 uid
              in case user of
                   None \<Rightarrow> (Profile_no_user, w2)
                 | Some u \<Rightarrow>
                     let ((total_ref, active_ref), w3) = get_user_referrals w2 uid
                     in (Profile_view (balance u) active_ref total_ref
                           (cooldown_remaining (last_click u) current_time), w3))"

section \<open>The ledger of a user and the invariants\<close>

text \<open>The sum of the amounts of the transactions recorded for a user.\<close>

definition ledger_sum :: "transaction_row list \<Rightarrow> int \<Rightarrow> real" where
  "ledger_sum txs uid = sum_list (map tx_amount (filter (\<lambda>t. tx_user_id t = uid) txs))"

text \<open>Conservation: the balance of every stored user is the sum of that user's ledger.\<close>

definition conserved :: "world \<Rightarrow> bool" where
  "conserved w =
     (\<forall>uid u. map_of (users w) uid = Some u \<longrightarrow> balance u = ledger_sum (transactions w) uid)"

section \<open>Example stores\<close>

definition alice :: user_row where
  "alice = \<lparr>username = ''alice'', referrer_id = None, created_at = 1000,
            balance = 0, last_click = None\<rparr>"

definition bob :: user_row where
  "bob = \<lparr>username = ''bob'', referrer_id = Some 7, created_at = 2000,
          balance = 0, last_click = None\<rparr>"

definition channel :: sponsor_row where
  "channel = \<lparr>sp_id = 1, channel_username = ''@stars'', channel_url = ''https://t.me/stars''\<rparr>"

text \<open>Alice (id 7) referred Bob (id 8); no sponsors; no outage scheduled.\<close>

definition store0 :: world where
  "store0 = \<lparr>users = [(7, alice), (8, bob)], transactions = [], withdrawals = [],
              sponsors = [], user_sponsors = [], active_referrals = (\<lambda>_. 0), outages = []\<rparr>"

text \<open>The same store with one sponsor configured, for which Bob has no recorded status.\<close>

definition store_sponsored :: world where
  "store_sponsored = store0\<lparr>sponsors := [channel]\<rparr>"

text \<open>Alice holds 30 and has three active referrals.\<close>

definition store_rich :: world where
  "store_rich = store0\<lparr>users := [(7, alice\<lparr>balance := 30\<rparr>), (8, bob)],
                       active_referrals := (\<lambda>_. 3)\<rparr>"

text \<open>Nobody is registered yet.\<close>

definition store_empty :: world where
  "store_empty = store0\<lparr>users := []\<rparr>"

text \<open>The first store after a rewarded click of Alice at clock 5000.\<close>

definition store_clicked :: world where
  "store_clicked = store0\<lparr>users := [(7, alice\<lparr>balance := 1 / 5, last_click := Some 5000\<rparr>), (8, bob)],
                          transactions := [\<lparr>tx_user_id = 7, tx_amount = 1 / 5, tx_type = ''click'',
                                             tx_description = Memo_clicker, tx_created_at = 5000\<rparr>]\<rparr>"

section \<open>Unfolding rules\<close>

lemmas db_defs = execute_def get_user_def create_user_def write_balance_def update_balance_def
  update_last_click_def get_sponsors_def update_user_sponsor_status_def
  get_user_sponsors_status_def rpc_get_user_sponsors_status_def get_user_referrals_def
  add_transaction_def create_withdrawal_def

lemmas bot_defs = check_subscriptions_def show_main_menu_def show_sponsors_message_def
  start_referrer_def cmd_start_def cooldown_remaining_def click_gate_def
  source_name_def click_referral_def click_reward_def handle_click_def withdraw_gate_def
  withdraw_commit_def request_withdrawal_def handle_withdraw_def handle_withdraw_menu_def
  handle_profile_def

lemmas cfg_defs = CLICK_REWARD_def CLICK_COOLDOWN_def CLICK_REFERRAL_PERCENT_def

lemmas py_defs = py_float_def py_int_def strip_def strip_sign_def is_digit_def digit_val_def
  nat_of_digits_def split_ws_def is_space_def lower_def is_e_def mantissa_def exponent_def
  ten_to_def float_max_bound_def

section \<open>The value of the referral bonus\<close>

lemma exponent_of_fifth: "exponent_from 2100 (1 / 5) 0 = - 3"
  by (simp add: eval_nat_numeral)

lemma exponent_of_tenth: "exponent_from 2100 (1 / 10) 0 = - 4"
  by (simp add: eval_nat_numeral)


lemma exponent_of_product:
  "exponent_from 2100 (12980742146337070512478121581609 / 649037107316853453566312041152512) 0 = - 6"
  by (simp add: eval_nat_numeral)

lemma binary64_fifth: "binary64 (1 / 5) = 3602879701896397 / 18014398509481984"
  by (simp add: binary64_def exponent_of_fifth two_to_def round_half_even_def Let_def)

lemma binary64_tenth: "binary64 (1 / 10) = 3602879701896397 / 36028797018963968"
  by (simp add: binary64_def exponent_of_tenth two_to_def round_half_even_def Let_def)


lemma binary64_of_product:
  "binary64 (12980742146337070512478121581609 / 649037107316853453566312041152512)
     = 1441151880758559 / 72057594037927936"
  by (simp add: binary64_def exponent_of_product two_to_def round_half_even_def Let_def)

lemma referral_bonus_value: "referral_bonus = 1441151880758559 / 72057594037927936"
  by (simp add: referral_bonus_def cfg_defs binary64_fifth binary64_tenth binary64_of_product)

lemma referral_bonus_positive: "0 < referral_bonus"
  by (simp add: referral_bonus_value)

lemmas ex_defs = store0_def store_sponsored_def store_rich_def store_empty_def
  store_clicked_def alice_def bob_def channel_def

section \<open>Facts about the methods of the database\<close>

text \<open>A round trip changes no table, whether it raises or not.\<close>

lemma execute_keeps [simp]:
  "users (snd (execute w)) = users w"
  "transactions (snd (execute w)) = transactions w"
  "withdrawals (snd (execute w)) = withdrawals w"
  "sponsors (snd (execute w)) = sponsors w"
  "user_sponsors (snd (execute w)) = user_sponsors w"
  "active_referrals (snd (execute w)) = active_referrals w"
  by (simp_all add: execute_def split: list.splits)

text \<open>What each method does to the rows of the users, whatever the outages.\<close>

lemma get_user_reads:
  "users (snd (get_user w uid)) = users w"
  "transactions (snd (get_user w uid)) = transactions w"
  "withdrawals (snd (get_user w uid)) = withdrawals w"
  "fst (get_user w uid) = (if fst (execute w) then None else map_of (users w) uid)"
  by (simp_all add: get_user_def case_prod_beta)

lemma get_user_referrals_reads:
  "users (snd (get_user_referrals w uid)) = users w"
  "transactions (snd (get_user_referrals w uid)) = transactions w"
  "withdrawals (snd (get_user_referrals w uid)) = withdrawals w"
  by (simp_all add: get_user_referrals_def case_prod_beta Let_def)

lemma create_withdrawal_users:
  "users (snd (create_withdrawal w uid amount now)) = users w"
  "transactions (snd (create_withdrawal w uid amount now)) = transactions w"
  "fst (create_withdrawal w uid amount now) = None \<Longrightarrow>
     withdrawals (snd (create_withdrawal w uid amount now)) = withdrawals w"
  by (simp_all add: create_withdrawal_def case_prod_beta Let_def split: if_splits)

lemma add_transaction_users:
  "users (snd (add_transaction w uid amount kind description now)) = users w"
  by (simp add: add_transaction_def case_prod_beta)

lemma update_balance_users:
  "users (snd (update_balance w uid amount)) = users w
   \<or> (\<exists>u. map_of (users w) uid = Some u
          \<and> users (snd (update_balance w uid amount))
              = AList.map_entry uid (\<lambda>r. r\<lparr>balance := balance u + amount\<rparr>) (users w))"
  by (simp add: update_balance_def write_balance_def get_user_def case_prod_beta
           split: option.splits)

lemma withdraw_commit_users:
  "users (snd (withdraw_commit w uid amount now)) = users w
   \<or> (\<exists>u. map_of (users w) uid = Some u
          \<and> users (snd (withdraw_commit w uid amount now))
              = AList.map_entry uid (\<lambda>r. r\<lparr>balance := balance u - amount\<rparr>) (users w))"
  using update_balance_users [of "snd (create_withdrawal w uid amount now)" uid "- amount"]
  by (auto simp add: withdraw_commit_def case_prod_beta Let_def add_transaction_users
        create_withdrawal_users split: option.splits)

text \<open>The methods when no outage is scheduled.\<close>

lemma quiet_execute: "outages w = [] \<Longrightarrow> execute w = (False, w)"
  by (simp add: execute_def)

lemma quiet_get_user: "outages w = [] \<Longrightarrow> get_user w uid = (map_of (users w) uid, w)"
  by (simp add: get_user_def quiet_execute)

lemma quiet_update_balance:
  "outages w = [] \<Longrightarrow> map_of (users w) uid = Some u \<Longrightarrow>
   update_balance w uid amount
     = (True, w\<lparr>users := AList.map_entry uid (\<lambda>r. r\<lparr>balance := balance u + amount\<rparr>) (users w)\<rparr>)"
  by (simp add: update_balance_def write_balance_def quiet_get_user quiet_execute)

lemma quiet_update_balance_missing:
  "outages w = [] \<Longrightarrow> map_of (users w) uid = None \<Longrightarrow> update_balance w uid amount = (False, w)"
  by (simp add: update_balance_def quiet_get_user)

lemma quiet_update_last_click:
  "outages w = [] \<Longrightarrow>
   update_last_click w uid t
     = (map_of (users w) uid \<noteq> None,
        w\<lparr>users := AList.map_entry uid (\<lambda>r. r\<lparr>last_click := Some t\<rparr>) (users w)\<rparr>)"
  by (simp add: update_last_click_def quiet_execute)

lemma quiet_add_transaction:
  "outages w = [] \<Longrightarrow>
   add_transaction w uid amount kind description now
     = (True, w\<lparr>transactions := transactions w @
          [\<lparr>tx_user_id = uid, tx_amount = amount, tx_type = kind,
            tx_description = description, tx_created_at = now\<rparr>]\<rparr>)"
  by (simp add: add_transaction_def quiet_execute)

lemma quiet_create_withdrawal:
  "outages w = [] \<Longrightarrow>
   create_withdrawal w uid amount now
     = (Some \<lparr>wd_id = int (length (withdrawals w)) + 1, wd_user_id = uid, wd_amount = amount,
              wd_status = ''pending'', wd_created_at = now\<rparr>,
        w\<lparr>withdrawals := withdrawals w @
          [\<lparr>wd_id = int (length (withdrawals w)) + 1, wd_user_id = uid, wd_amount = amount,
            wd_status = ''pending'', wd_created_at = now\<rparr>]\<rparr>)"
  by (simp add: create_withdrawal_def quiet_execute Let_def)

lemma quiet_get_user_referrals:
  "outages w = [] \<Longrightarrow>
   get_user_referrals w uid
     = ((length (filter (\<lambda>(k, r). referrer_id r = Some uid) (users w)), active_referrals w uid), w)"
  by (simp add: get_user_referrals_def quiet_execute Let_def)

lemma quiet_check_subscriptions:
  "outages w = [] \<Longrightarrow> snd (check_subscriptions w uid) = w"
  by (simp add: check_subscriptions_def get_user_sponsors_status_def quiet_execute)

section \<open>Conservation when no round trip fails\<close>

lemma ledger_sum_append:
  "ledger_sum (txs @ [t]) k = ledger_sum txs k + (if tx_user_id t = k then tx_amount t else 0)"
  by (simp add: ledger_sum_def)

text \<open>A credit: the balance update followed, possibly later, by the matching transaction.\<close>

lemma quiet_credit_conserved:
  assumes quiet: "outages w = []" and inv: "conserved w"
  shows "conserved (snd (add_transaction (snd (update_balance w uid amount)) uid amount kind d now))"
proof (cases "map_of (users w) uid")
  case None
  then show ?thesis using quiet inv
    by (auto simp add: quiet_update_balance_missing quiet_add_transaction conserved_def
          ledger_sum_append)
next
  case (Some u)
  then show ?thesis using quiet inv
    by (auto simp add: quiet_update_balance quiet_add_transaction conserved_def
          ledger_sum_append AList.map_of_map_entry split: if_splits)
qed

lemma quiet_credit_outages:
  "outages w = [] \<Longrightarrow>
   outages (snd (add_transaction (snd (update_balance w uid amount)) uid amount kind d now)) = []"
  by (cases "map_of (users w) uid")
     (simp_all add: quiet_update_balance_missing quiet_update_balance quiet_add_transaction)

lemma quiet_click_reward_conserved:
  assumes quiet: "outages w = []" and inv: "conserved w"
  shows "conserved (snd (click_reward w uid uname now u))"
proof -
  let ?w1 = "snd (update_balance w uid CLICK_REWARD)"
  let ?w2 = "snd (update_last_click ?w1 uid now)"
  let ?w3 = "snd (add_transaction ?w2 uid CLICK_REWARD ''click'' Memo_clicker now)"
  let ?plain = "snd (add_transaction ?w1 uid CLICK_REWARD ''click'' Memo_clicker now)"
  have q1: "outages ?w1 = []"
    using quiet by (cases "map_of (users w) uid")
      (simp_all add: quiet_update_balance_missing quiet_update_balance)
  have plain: "conserved ?plain" by (rule quiet_credit_conserved [OF quiet inv])
  have w3: "transactions ?w3 = transactions ?plain"
    "map_of (users ?w3) = (\<lambda>k. map_option (\<lambda>r. if k = uid then r\<lparr>last_click := Some now\<rparr> else r)
                               (map_of (users ?plain) k))"
    "outages ?w3 = []"
    using q1
    by (auto simp add: quiet_update_last_click quiet_add_transaction AList.map_of_map_entry
          fun_eq_iff option.map_ident split: option.splits)
  have c3: "conserved ?w3"
    unfolding conserved_def
  proof (intro allI impI)
    fix k v
    assume "map_of (users ?w3) k = Some v"
    then obtain r where "map_of (users ?plain) k = Some r" and "balance v = balance r"
      by (auto simp add: w3(2) split: if_splits)
    then show "balance v = ledger_sum (transactions ?w3) k"
      using plain by (simp add: conserved_def w3(1))
  qed
  have c4: "conserved (click_referral ?w3 uid uname now u)"
    using quiet_credit_conserved [OF w3(3) c3]
    by (simp add: click_referral_def Let_def c3 split: option.splits)
  have q4: "outages (click_referral ?w3 uid uname now u) = []"
    using quiet_credit_outages [OF w3(3)]
    by (simp add: click_referral_def Let_def w3 split: option.splits)
  show ?thesis
    using c4 q4 by (simp add: click_reward_def Let_def quiet_get_user split: option.splits)
qed

lemma quiet_handle_click_conserved:
  assumes quiet: "outages w = []" and inv: "conserved w"
  shows "conserved (snd (handle_click w uid uname now))"
proof -
  have g: "snd (click_gate w uid now) = w"
    using quiet quiet_check_subscriptions [OF quiet, of uid]
    by (auto simp add: click_gate_def case_prod_beta Let_def quiet_get_user
          split: option.splits)
  obtain r where cg: "click_gate w uid now = (r, w)"
    using g by (metis prod.collapse)
  show ?thesis
  proof (cases r)
    case (Inl a)
    then show ?thesis using cg inv by (simp add: handle_click_def)
  next
    case (Inr u)
    then have "handle_click w uid uname now = click_reward w uid uname now u"
      using cg by (simp add: handle_click_def)
    then show ?thesis using quiet_click_reward_conserved [OF quiet inv] by simp
  qed
qed

lemma quiet_withdrawal_conserved:
  assumes quiet: "outages w = []" and inv: "conserved w"
  shows "conserved (snd (request_withdrawal w uid amount now))"
proof -
  have g: "snd (withdraw_gate w uid amount) = w"
    using quiet
    by (simp add: withdraw_gate_def quiet_get_user quiet_get_user_referrals
          split: option.splits)
  let ?w1 = "snd (create_withdrawal w uid amount now)"
  have q1: "outages ?w1 = []" and c1: "conserved ?w1"
    using quiet inv by (simp_all add: quiet_create_withdrawal conserved_def)
  have commit: "conserved (snd (withdraw_commit w uid amount now))"
    using quiet_credit_conserved [OF q1 c1, of uid "- amount"] quiet
    by (simp add: withdraw_commit_def quiet_create_withdrawal Let_def)
  obtain r where wg: "withdraw_gate w uid amount = (r, w)"
    using g by (metis prod.collapse)
  show ?thesis
    using inv commit by (cases r) (simp_all add: request_withdrawal_def wg)
qed

lemma withdraw_nonfinite_reads:
  "users (snd (withdraw_nonfinite w uid amount)) = users w"
  "transactions (snd (withdraw_nonfinite w uid amount)) = transactions w"
  "withdrawals (snd (withdraw_nonfinite w uid amount)) = withdrawals w"
  by (simp_all add: withdraw_nonfinite_def case_prod_beta Let_def get_user_reads
        get_user_referrals_reads split: option.splits)

lemma conserved_same_tables:
  "users w' = users w \<Longrightarrow> transactions w' = transactions w \<Longrightarrow> conserved w' = conserved w"
  by (simp add: conserved_def)

lemma quiet_first_start_conserved:
  assumes quiet: "outages w = []" and inv: "conserved w"
    and fresh: "ledger_sum (transactions w) uid = 0"
  shows "conserved (snd (cmd_start w uid uname first_name text now))"
proof -
  let ?w1 = "snd (create_user w uid (Some (case uname of None \<Rightarrow> first_name
                  | Some n \<Rightarrow> if n = [] then first_name else n)) (start_referrer uid text) now)"
  have q1: "outages ?w1 = []" and c1: "conserved ?w1"
    using quiet inv fresh
    by (auto simp add: create_user_def quiet_execute Let_def conserved_def AList.update_conv'
          split: if_splits)
  have s: "snd (cmd_start w uid uname first_name text now) = ?w1"
    using quiet_check_subscriptions [OF q1, of uid] q1
    by (auto simp add: cmd_start_def Let_def case_prod_beta show_sponsors_message_def
          show_main_menu_def get_sponsors_def quiet_execute quiet_get_user)
  show ?thesis using c1 s by simp
qed


section \<open>The click when no round trip fails\<close>

lemma quiet_check_subscriptions_eq:
  "outages w = [] \<Longrightarrow>
   check_subscriptions w uid
     = (rpc_get_user_sponsors_status w uid = [] \<or> all_subscribed (rpc_get_user_sponsors_status w uid), w)"
  by (simp add: check_subscriptions_def get_user_sponsors_status_def quiet_execute)

lemma quiet_click_gate:
  "outages w = [] \<Longrightarrow>
   click_gate w uid t
     = (if \<not> fst (check_subscriptions w uid) then Inl Click_subscribe_first
        else case map_of (users w) uid of
               None \<Rightarrow> Inl Click_no_user
             | Some u \<Rightarrow>
                 (case cooldown_remaining (last_click u) t of
                    Some remaining \<Rightarrow> Inl (Click_cooldown remaining)
                  | None \<Rightarrow> Inr u), w)"
  by (simp add: click_gate_def quiet_check_subscriptions_eq quiet_get_user split: option.splits)

text \<open>The store after the three writes of a rewarded click, before the referral part.\<close>

lemma quiet_click_writes:
  assumes quiet: "outages w = []" and user: "map_of (users w) uid = Some u"
  shows "snd (add_transaction
                (snd (update_last_click (snd (update_balance w uid CLICK_REWARD)) uid t))
                uid CLICK_REWARD ''click'' Memo_clicker t)
         = w\<lparr>users := AList.map_entry uid (\<lambda>r. r\<lparr>last_click := Some t\<rparr>)
                         (AList.map_entry uid (\<lambda>r. r\<lparr>balance := balance u + CLICK_REWARD\<rparr>) (users w)),
              transactions := transactions w @
                [\<lparr>tx_user_id = uid, tx_amount = CLICK_REWARD, tx_type = ''click'',
                  tx_description = Memo_clicker, tx_created_at = t\<rparr>]\<rparr>"
  using quiet user
  by (simp add: quiet_update_balance quiet_update_last_click quiet_add_transaction)

lemma click_referral_keeps:
  "sponsors (click_referral w uid uname t u) = sponsors w"
  "user_sponsors (click_referral w uid uname t u) = user_sponsors w"
  by (simp_all add: click_referral_def update_balance_def write_balance_def get_user_def
        add_transaction_def case_prod_beta Let_def split: option.splits)

lemma quiet_click_referral:
  assumes quiet: "outages w = []"
  shows "outages (click_referral w uid uname t u) = []"
    and "map_of (users w) uid = Some v \<Longrightarrow>
         \<exists>v'. map_of (users (click_referral w uid uname t u)) uid = Some v'
              \<and> last_click v' = last_click v"
proof -
  show "outages (click_referral w uid uname t u) = []"
    using quiet quiet_credit_outages [OF quiet]
    by (simp add: click_referral_def Let_def split: option.splits)
next
  assume v: "map_of (users w) uid = Some v"
  show "\<exists>v'. map_of (users (click_referral w uid uname t u)) uid = Some v'
              \<and> last_click v' = last_click v"
  proof (cases "referrer_id u")
    case None
    then show ?thesis using v by (simp add: click_referral_def)
  next
    case (Some r)
    show ?thesis
    proof (cases "map_of (users w) r")
      case None
      then show ?thesis using v Some quiet
        by (simp add: click_referral_def Let_def quiet_update_balance_missing quiet_add_transaction)
    next
      case (Some ru)
      then show ?thesis using v \<open>referrer_id u = Some r\<close> quiet
        by (auto simp add: click_referral_def Let_def quiet_update_balance quiet_add_transaction
              AList.map_of_map_entry)
    qed
  qed
qed

lemma quiet_click_reward:
  assumes quiet: "outages w = []"
    and user: "map_of (users w) uid = Some u"
  shows "\<exists>v. map_of (users (click_referral
                   (w\<lparr>users := AList.map_entry uid (\<lambda>r. r\<lparr>last_click := Some now\<rparr>)
                         (AList.map_entry uid (\<lambda>r. r\<lparr>balance := balance u + CLICK_REWARD\<rparr>) (users w)),
                      transactions := transactions w @
                        [\<lparr>tx_user_id = uid, tx_amount = CLICK_REWARD, tx_type = ''click'',
                          tx_description = Memo_clicker, tx_created_at = now\<rparr>]\<rparr>)
                   uid uname now snapshot)) uid = Some v
           \<and> click_reward w uid uname now snapshot
               = (Click_rewarded CLICK_REWARD (balance v),
                  click_referral
                   (w\<lparr>users := AList.map_entry uid (\<lambda>r. r\<lparr>last_click := Some now\<rparr>)
                         (AList.map_entry uid (\<lambda>r. r\<lparr>balance := balance u + CLICK_REWARD\<rparr>) (users w)),
                      transactions := transactions w @
                        [\<lparr>tx_user_id = uid, tx_amount = CLICK_REWARD, tx_type = ''click'',
                          tx_description = Memo_clicker, tx_created_at = now\<rparr>]\<rparr>)
                   uid uname now snapshot)"
proof -
  let ?w3 = "w\<lparr>users := AList.map_entry uid (\<lambda>r. r\<lparr>last_click := Some now\<rparr>)
                         (AList.map_entry uid (\<lambda>r. r\<lparr>balance := balance u + CLICK_REWARD\<rparr>) (users w)),
                      transactions := transactions w @
                        [\<lparr>tx_user_id = uid, tx_amount = CLICK_REWARD, tx_type = ''click'',
                          tx_description = Memo_clicker, tx_created_at = now\<rparr>]\<rparr>"
  have q3: "outages ?w3 = []" using quiet by simp
  have "\<exists>v3. map_of (users ?w3) uid = Some v3"
    using user by (simp add: AList.map_of_map_entry)
  then obtain v3 where v3: "map_of (users ?w3) uid = Some v3" by blast
  obtain v where v: "map_of (users (click_referral ?w3 uid uname now snapshot)) uid = Some v"
    using quiet_click_referral(2) [OF q3 v3, of uname now snapshot] by blast
  have q4: "outages (click_referral ?w3 uid uname now snapshot) = []"
    by (rule quiet_click_referral(1) [OF q3])
  have "click_reward w uid uname now snapshot
          = (Click_rewarded CLICK_REWARD (balance v), click_referral ?w3 uid uname now snapshot)"
    using v q4
    by (simp add: click_reward_def Let_def quiet_click_writes [OF quiet user] quiet_get_user)
  then show ?thesis using v by blast
qed

text \<open>The handlers after a subscription test that passed.\<close>

lemma gate_passed:
  assumes sub: "check_subscriptions w uid = (True, w1)"
  shows "handle_withdraw_menu w uid
           = (Menu_amounts (map (\<lambda>amount. ''withdraw_'' @ str_int amount) WITHDRAWAL_AMOUNTS), w1)"
    and "outages w1 = [] \<Longrightarrow> map_of (users w1) uid = Some u \<Longrightarrow>
         handle_profile w uid now
           = (Profile_view (balance u) (active_referrals w1 uid)
                (length (filter (\<lambda>(k, r). referrer_id r = Some uid) (users w1)))
                (cooldown_remaining (last_click u) now), w1)"
    and "outages w1 = [] \<Longrightarrow> map_of (users w1) uid = Some u \<Longrightarrow>
         cooldown_remaining (last_click u) now = Some remaining \<Longrightarrow>
         handle_click w uid uname now = (Click_cooldown remaining, w1)"
    and "outages w1 = [] \<Longrightarrow> map_of (users w1) uid = None \<Longrightarrow>
         handle_click w uid uname now = (Click_no_user, w1)"
    and "outages w1 = [] \<Longrightarrow> map_of (users w1) uid = Some u \<Longrightarrow>
         cooldown_remaining (last_click u) now = None \<Longrightarrow>
         handle_click w uid uname now = click_reward w1 uid uname now u"
  by (simp_all add: handle_withdraw_menu_def handle_profile_def handle_click_def click_gate_def
        sub quiet_get_user quiet_get_user_referrals)

lemma menu_strings:
  "map (\<lambda>amount. ''withdraw_'' @ str_int amount) WITHDRAWAL_AMOUNTS
     = [''withdraw_15'', ''withdraw_25'', ''withdraw_50'', ''withdraw_100'']"
  by (simp add: WITHDRAWAL_AMOUNTS_def str_int_def)

section \<open>Registration\<close>

text \<open>
  C3 (registration is idempotent: a repeated /start leaves balance, last_click and
  referrer_id of an existing user unchanged). The upsert of \<^verbatim>\<open>create_user\<close> writes
  every column of its row. Bob clicks once (balance 0.2, last click at 5000, referrer 7);
  his next plain /start stores balance 0, no last click and no referrer.
\<close>

theorem reregistration_resets_account:
  "map_of (users (snd (handle_click store0 8 (Some ''bob'') 5000))) 8
     = Some \<lparr>username = ''bob'', referrer_id = Some 7, created_at = 2000,
              balance = 1 / 5, last_click = Some 5000\<rparr>
   \<and> map_of (users (snd (cmd_start (snd (handle_click store0 8 (Some ''bob'') 5000))
                               8 (Some ''bob'') ''Bob'' ''/start'' 6000))) 8
     = Some \<lparr>username = ''bob'', referrer_id = None, created_at = 6000,
              balance = 0, last_click = None\<rparr>"
  by (simp add: db_defs bot_defs cfg_defs py_defs ex_defs Let_def)

section \<open>The cooldown\<close>



text \<open>
  The hypothesis on the clock is needed: a timestamp 0 is stored like any other and read
  as a missing one, so a clock at 0 would reward twice within the window.
\<close>

lemma zero_timestamp_skips_cooldown:
  "handle_click store0 7 (Some ''alice'') 0
     = (Click_rewarded (1 / 5) (1 / 5),
        store0\<lparr>users := [(7, alice\<lparr>balance := 1 / 5, last_click := Some 0\<rparr>), (8, bob)],
                transactions := [\<lparr>tx_user_id = 7, tx_amount = 1 / 5, tx_type = ''click'',
                                   tx_description = Memo_clicker, tx_created_at = 0\<rparr>]\<rparr>)
   \<and> fst (handle_click (snd (handle_click store0 7 (Some ''alice'') 0)) 7 (Some ''alice'') 1800)
     = Click_rewarded (1 / 5) (2 / 5)"
  by (simp add: db_defs bot_defs cfg_defs py_defs ex_defs Let_def)

text \<open>
  C4 (two clicks in one window give one reward, enforced by an atomic or conditional
  update of the store). The code has no such update. \<^verbatim>\<open>update_balance\<close> is a read
  of the user followed by a separate write: with an outage at the second round trip it
  answers \<open>False\<close> after both round trips. The window is kept by the
  \<^verbatim>\<open>last_click\<close> written by \<^verbatim>\<open>update_last_click\<close>, whose result is dropped:
  when that write raises, the click is still rewarded and logged, and a second click one
  second later is rewarded again.
\<close>

theorem second_click_rewarded_after_failed_write:
  "handle_click (store0\<lparr>outages := [False, False, False, False, True]\<rparr>) 7 (Some ''alice'') 5000
     = (Click_rewarded (1 / 5) (1 / 5),
        store0\<lparr>users := [(7, alice\<lparr>balance := 1 / 5\<rparr>), (8, bob)],
                transactions := [\<lparr>tx_user_id = 7, tx_amount = 1 / 5, tx_type = ''click'',
                                   tx_description = Memo_clicker, tx_created_at = 5000\<rparr>]\<rparr>)
   \<and> fst (handle_click
            (store0\<lparr>users := [(7, alice\<lparr>balance := 1 / 5\<rparr>), (8, bob)],
                    transactions := [\<lparr>tx_user_id = 7, tx_amount = 1 / 5, tx_type = ''click'',
                                       tx_description = Memo_clicker, tx_created_at = 5000\<rparr>]\<rparr>)
            7 (Some ''alice'') 5001)
     = Click_rewarded (1 / 5) (2 / 5)
   \<and> update_balance (store0\<lparr>outages := [False, True]\<rparr>) 7 (1 / 5) = (False, store0)"
  by (simp add: db_defs bot_defs cfg_defs ex_defs Let_def)

text \<open>
  C4, as the code has it: when no round trip fails, a rewarded click at a non-zero clock
  \<open>t1\<close> is followed, for every click of the same user made before
  \<open>t1 + CLICK_COOLDOWN\<close>, by the cooldown answer with the remaining time, and that
  second click changes nothing in the store.
\<close>

theorem second_click_in_window_waits:
  assumes quiet: "outages w = []"
    and first: "handle_click w uid uname t1 = (Click_rewarded r b, w1)"
    and nonzero: "t1 \<noteq> 0"
    and window: "t2 - t1 < CLICK_COOLDOWN"
  shows "handle_click w1 uid uname2 t2 = (Click_cooldown (CLICK_COOLDOWN - (t2 - t1)), w1)"
proof -
  have sub: "fst (check_subscriptions w uid)"
    using first quiet by (auto simp add: handle_click_def quiet_click_gate split: if_splits)
  obtain u where user: "map_of (users w) uid = Some u"
    and rew: "click_reward w uid uname t1 u = (Click_rewarded r b, w1)"
    using first quiet sub
    by (auto simp add: handle_click_def quiet_click_gate split: option.splits)
  let ?w3 = "snd (add_transaction
                (snd (update_last_click (snd (update_balance w uid CLICK_REWARD)) uid t1))
                uid CLICK_REWARD ''click'' Memo_clicker t1)"
  have w3: "outages ?w3 = []" "sponsors ?w3 = sponsors w" "user_sponsors ?w3 = user_sponsors w"
    "\<exists>v. map_of (users ?w3) uid = Some v \<and> last_click v = Some t1"
    using quiet user
    by (simp_all add: quiet_click_writes [OF quiet user] AList.map_of_map_entry)
  then obtain v where v: "map_of (users ?w3) uid = Some v" "last_click v = Some t1"
    by blast
  let ?w4 = "click_referral ?w3 uid uname t1 u"
  have q4: "outages ?w4 = []"
    by (rule quiet_click_referral(1) [OF w3(1)])
  obtain v' where v': "map_of (users ?w4) uid = Some v'" "last_click v' = Some t1"
    using quiet_click_referral(2) [OF w3(1) v(1), of uname t1 u] v(2) by auto
  have w1: "w1 = ?w4"
    using rew q4 by (simp add: click_reward_def Let_def quiet_get_user split: option.splits)
  have sub4: "fst (check_subscriptions ?w4 uid)"
    using sub quiet q4
    by (simp add: quiet_check_subscriptions_eq rpc_get_user_sponsors_status_def
          click_referral_keeps w3)
  have "handle_click ?w4 uid uname2 t2 = (Click_cooldown (CLICK_COOLDOWN - (t2 - t1)), ?w4)"
    using sub4 v' nonzero window
    by (simp add: handle_click_def quiet_click_gate [OF q4] cooldown_remaining_def)
  then show ?thesis
    unfolding w1 .
qed

theorem second_click_in_window_waits_witness:
  "outages store0 = []
   \<and> handle_click store0 7 (Some ''alice'') 5000 = (Click_rewarded (1 / 5) (1 / 5), store_clicked)
   \<and> (5000 :: int) \<noteq> 0 \<and> 6000 - 5000 < CLICK_COOLDOWN
   \<and> handle_click store_clicked 7 (Some ''alice'') 6000 = (Click_cooldown 2600, store_clicked)"
proof -
  have quiet: "outages store0 = []"
    by (simp add: ex_defs)
  have first: "handle_click store0 7 (Some ''alice'') 5000
                 = (Click_rewarded (1 / 5) (1 / 5), store_clicked)"
    by (simp add: db_defs bot_defs cfg_defs store_clicked_def ex_defs Let_def)
  have window: "6000 - 5000 < CLICK_COOLDOWN"
    by (simp add: cfg_defs)
  have "handle_click store_clicked 7 (Some ''alice'') 6000
          = (Click_cooldown (CLICK_COOLDOWN - (6000 - 5000)), store_clicked)"
    by (rule second_click_in_window_waits [OF quiet first _ window]) simp
  then show ?thesis using quiet first window by (simp add: cfg_defs)
qed

section \<open>The referral credit\<close>




section \<open>Withdrawals\<close>

text \<open>
  C9 (every withdrawal row has a positive amount and debits the balance). The handler
  accepts any float after \<^verbatim>\<open>withdraw_\<close>: with three active referrals, the data
  \<^verbatim>\<open>withdraw_-5\<close> passes the balance test, creates a pending row of amount -5 and
  raises Alice's balance from 0 to 5.
\<close>

theorem negative_payload_creates_withdrawal:
  "handle_withdraw (store0\<lparr>active_referrals := (\<lambda>_. 3)\<rparr>) 7 ''withdraw_-5'' 9000
     = (Withdraw_created 1 (- 5),
        store0\<lparr>active_referrals := (\<lambda>_. 3),
                users := [(7, alice\<lparr>balance := 5\<rparr>), (8, bob)],
                transactions := [\<lparr>tx_user_id = 7, tx_amount = 5, tx_type = ''withdrawal'',
                                   tx_description = Memo_withdrawal 1, tx_created_at = 9000\<rparr>],
                withdrawals := [\<lparr>wd_id = 1, wd_user_id = 7, wd_amount = - 5,
                                  wd_status = ''pending'', wd_created_at = 9000\<rparr>]\<rparr>)"
  by (simp add: db_defs bot_defs cfg_defs py_defs ex_defs Let_def)

text \<open>
  C6 (a request above the balance is rejected with the current balance, and no request
  makes a balance negative). The rejection does not always carry the balance: when the
  read of the user raises, \<^verbatim>\<open>get_user\<close> answers \<open>None\<close> and Alice, who holds 30
  and asks for 50, gets the answer for a missing user.
\<close>

theorem refused_withdrawal_without_balance_answer:
  "map_of (users store_rich) 7 = Some (alice\<lparr>balance := 30\<rparr>)
   \<and> request_withdrawal (store_rich\<lparr>outages := [True]\<rparr>) 7 50 9000 = (Withdraw_no_user, store_rich)"
  by (simp add: db_defs bot_defs ex_defs Let_def)

text \<open>
  C6, as the code has it: a user whose balance is not negative keeps a non-negative
  balance through a withdrawal request, whatever the amount and whatever the outages; a
  request above the balance changes no table and is answered with the current balance,
  or, when the read of the user raises, with the answer for a missing user.
\<close>

theorem withdrawal_keeps_balance_nonnegative:
  assumes user: "map_of (users w) uid = Some u"
    and nonneg: "0 \<le> balance u"
    and call: "request_withdrawal w uid amount now = (answer, w')"
  shows "(\<exists>u'. map_of (users w') uid = Some u' \<and> 0 \<le> balance u')
       \<and> (balance u < amount \<longrightarrow>
            users w' = users w \<and> transactions w' = transactions w \<and> withdrawals w' = withdrawals w
            \<and> (answer = Withdraw_insufficient_balance (balance u)
                \<or> (fst (execute w) \<and> answer = Withdraw_no_user)))"
proof -
  let ?g = "withdraw_gate w uid amount"
  have gate_users: "users (snd ?g) = users w" "transactions (snd ?g) = transactions w"
    "withdrawals (snd ?g) = withdrawals w"
    by (simp_all add: withdraw_gate_def case_prod_beta Let_def get_user_reads
          get_user_referrals_reads split: option.splits)
  have gate_low: "balance u < amount \<Longrightarrow>
      fst ?g = Some (Withdraw_insufficient_balance (balance u))
      \<or> (fst (execute w) \<and> fst ?g = Some Withdraw_no_user)"
    using user
    by (simp add: withdraw_gate_def case_prod_beta Let_def get_user_reads split: option.splits)
  have gate_pass: "fst ?g = None \<Longrightarrow> amount \<le> balance u"
    using user
    by (simp add: withdraw_gate_def case_prod_beta Let_def get_user_reads
          split: option.splits if_splits)
  show ?thesis
  proof (cases "fst ?g")
    case (Some a)
    then have "answer = a" "w' = snd ?g"
      using call by (simp_all add: request_withdrawal_def split: prod.splits)
    then show ?thesis using Some gate_users gate_low user nonneg by auto
  next
    case None
    then have w': "w' = snd (withdraw_commit (snd ?g) uid amount now)"
      using call by (simp add: request_withdrawal_def split: prod.splits)
    have le: "amount \<le> balance u" using gate_pass None by simp
    have "\<exists>u'. map_of (users w') uid = Some u' \<and> 0 \<le> balance u'"
      using withdraw_commit_users [of "snd ?g" uid amount now] user nonneg le
      by (auto simp add: w' gate_users AList.map_of_map_entry)
    then show ?thesis using le by simp
  qed
qed

text \<open>
  Alice holds 30 with three active referrals: a request of 25 leaves 5, a request of 50
  is refused with her balance.
\<close>

theorem withdrawal_keeps_balance_nonnegative_witness:
  "map_of (users store_rich) 7 = Some (alice\<lparr>balance := 30\<rparr>)
   \<and> 0 \<le> balance (alice\<lparr>balance := 30\<rparr>)
   \<and> fst (request_withdrawal store_rich 7 25 9000) = Withdraw_created 1 25
   \<and> map_of (users (snd (request_withdrawal store_rich 7 25 9000))) 7 = Some (alice\<lparr>balance := 5\<rparr>)
   \<and> request_withdrawal store_rich 7 50 9000 = (Withdraw_insufficient_balance 30, store_rich)"
  using withdrawal_keeps_balance_nonnegative
          [of store_rich 7 "alice\<lparr>balance := 30\<rparr>" 25 9000
              "fst (request_withdrawal store_rich 7 25 9000)"
              "snd (request_withdrawal store_rich 7 25 9000)"]
  by (simp add: db_defs bot_defs ex_defs Let_def)

text \<open>
  C1 (the three effects of a withdrawal are applied together or not at all). The effects
  are separate round trips. With an outage at the update of the balance, after the row
  was created, the request is answered as created, the pending row and the transaction
  are stored, and Alice still holds 30.
\<close>

theorem withdrawal_row_without_debit:
  "request_withdrawal (store_rich\<lparr>outages := [False, False, False, False, False, True]\<rparr>) 7 25 9000
     = (Withdraw_created 1 25,
        store_rich\<lparr>withdrawals := [\<lparr>wd_id = 1, wd_user_id = 7, wd_amount = 25,
                                      wd_status = ''pending'', wd_created_at = 9000\<rparr>],
                    transactions := [\<lparr>tx_user_id = 7, tx_amount = - 25, tx_type = ''withdrawal'',
                                       tx_description = Memo_withdrawal 1, tx_created_at = 9000\<rparr>]\<rparr>)
   \<and> map_of (users store_rich) 7 = Some (alice\<lparr>balance := 30\<rparr>)"
  by (simp add: db_defs bot_defs ex_defs Let_def)

text \<open>
  C1, as the code has it: a request that passes the balance test and the referral test
  applies all three effects when no round trip fails, and none of them when the round
  trip that creates the row fails (the fourth of the call, after the read of the user
  and the two reads of the referrals).
\<close>

theorem withdrawal_effects_without_outage:
  assumes user: "map_of (users w) uid = Some u"
    and enough: "amount \<le> balance u"
    and refs: "3 \<le> active_referrals w uid"
  shows "(outages w = [] \<longrightarrow>
            request_withdrawal w uid amount now
              = (Withdraw_created (int (length (withdrawals w)) + 1) amount,
                 w\<lparr>withdrawals := withdrawals w @
                       [\<lparr>wd_id = int (length (withdrawals w)) + 1, wd_user_id = uid,
                         wd_amount = amount, wd_status = ''pending'', wd_created_at = now\<rparr>],
                   users := AList.map_entry uid (\<lambda>r. r\<lparr>balance := balance u - amount\<rparr>) (users w),
                   transactions := transactions w @
                       [\<lparr>tx_user_id = uid, tx_amount = - amount, tx_type = ''withdrawal'',
                         tx_description = Memo_withdrawal (int (length (withdrawals w)) + 1),
                         tx_created_at = now\<rparr>]\<rparr>))
       \<and> (outages w = False # False # False # True # fs \<longrightarrow>
            request_withdrawal w uid amount now = (Withdraw_create_failed, w\<lparr>outages := fs\<rparr>))"
proof (intro conjI impI)
  assume quiet: "outages w = []"
  have gate: "withdraw_gate w uid amount = (None, w)"
    using user enough refs quiet
    by (simp add: withdraw_gate_def quiet_get_user quiet_get_user_referrals)
  show "request_withdrawal w uid amount now
              = (Withdraw_created (int (length (withdrawals w)) + 1) amount,
                 w\<lparr>withdrawals := withdrawals w @
                       [\<lparr>wd_id = int (length (withdrawals w)) + 1, wd_user_id = uid,
                         wd_amount = amount, wd_status = ''pending'', wd_created_at = now\<rparr>],
                   users := AList.map_entry uid (\<lambda>r. r\<lparr>balance := balance u - amount\<rparr>) (users w),
                   transactions := transactions w @
                       [\<lparr>tx_user_id = uid, tx_amount = - amount, tx_type = ''withdrawal'',
                         tx_description = Memo_withdrawal (int (length (withdrawals w)) + 1),
                         tx_created_at = now\<rparr>]\<rparr>)"
    using user quiet
    by (simp add: request_withdrawal_def gate withdraw_commit_def quiet_create_withdrawal
          quiet_update_balance quiet_add_transaction Let_def)
next
  assume out: "outages w = False # False # False # True # fs"
  show "request_withdrawal w uid amount now = (Withdraw_create_failed, w\<lparr>outages := fs\<rparr>)"
    using user enough refs out
    by (simp add: request_withdrawal_def withdraw_gate_def withdraw_commit_def db_defs Let_def)
qed

theorem withdrawal_effects_without_outage_witness:
  "map_of (users store_rich) 7 = Some (alice\<lparr>balance := 30\<rparr>)
   \<and> 25 \<le> balance (alice\<lparr>balance := 30\<rparr>)
   \<and> 3 \<le> active_referrals store_rich 7
   \<and> outages store_rich = []
   \<and> request_withdrawal store_rich 7 25 9000
       = (Withdraw_created 1 25,
          store_rich\<lparr>withdrawals := [\<lparr>wd_id = 1, wd_user_id = 7, wd_amount = 25,
                                        wd_status = ''pending'', wd_created_at = 9000\<rparr>],
                      users := [(7, alice\<lparr>balance := 5\<rparr>), (8, bob)],
                      transactions := [\<lparr>tx_user_id = 7, tx_amount = - 25, tx_type = ''withdrawal'',
                                         tx_description = Memo_withdrawal 1, tx_created_at = 9000\<rparr>]\<rparr>)
   \<and> request_withdrawal (store_rich\<lparr>outages := [False, False, False, True]\<rparr>) 7 25 9000
       = (Withdraw_create_failed, store_rich)"
  using withdrawal_effects_without_outage [of store_rich 7 "alice\<lparr>balance := 30\<rparr>" 25 9000 "[]"]
        withdrawal_effects_without_outage
          [of "store_rich\<lparr>outages := [False, False, False, True]\<rparr>" 7
              "alice\<lparr>balance := 30\<rparr>" 25 9000 "[]"]
  by (simp add: ex_defs)

section \<open>Conservation\<close>

text \<open>
  C2 (after every operation the balance of a user is the sum of that user's
  transactions). Two runs in which it is not: a click during which the update of the
  balance raises, and the first registration of a referrer who was credited before being
  registered.
\<close>

theorem ledger_diverges_from_balance:
  "conserved store0
   \<and> handle_click (store0\<lparr>outages := [False, False, False, True]\<rparr>) 7 (Some ''alice'') 5000
       = (Click_rewarded (1 / 5) 0,
          store0\<lparr>users := [(7, alice\<lparr>last_click := Some 5000\<rparr>), (8, bob)],
                  transactions := [\<lparr>tx_user_id = 7, tx_amount = 1 / 5, tx_type = ''click'',
                                     tx_description = Memo_clicker, tx_created_at = 5000\<rparr>]\<rparr>)
   \<and> \<not> conserved (snd (handle_click (store0\<lparr>outages := [False, False, False, True]\<rparr>)
                                      7 (Some ''alice'') 5000))
   \<and> conserved (snd (handle_click
                       (snd (cmd_start store_empty 8 (Some ''bob'') ''Bob'' ''/start 7'' 2000))
                       8 (Some ''bob'') 5000))
   \<and> \<not> conserved (snd (cmd_start
                         (snd (handle_click
                                 (snd (cmd_start store_empty 8 (Some ''bob'') ''Bob'' ''/start 7'' 2000))
                                 8 (Some ''bob'') 5000))
                         7 (Some ''alice'') ''Alice'' ''/start'' 6000))"
proof -
  have a: "handle_click (store0\<lparr>outages := [False, False, False, True]\<rparr>) 7 (Some ''alice'') 5000
       = (Click_rewarded (1 / 5) 0,
          store0\<lparr>users := [(7, alice\<lparr>last_click := Some 5000\<rparr>), (8, bob)],
                  transactions := [\<lparr>tx_user_id = 7, tx_amount = 1 / 5, tx_type = ''click'',
                                     tx_description = Memo_clicker, tx_created_at = 5000\<rparr>]\<rparr>)"
    by (simp add: db_defs bot_defs cfg_defs ex_defs Let_def)
  have a': "\<not> conserved (snd (handle_click (store0\<lparr>outages := [False, False, False, True]\<rparr>)
                                      7 (Some ''alice'') 5000))"
    unfolding a by (simp add: conserved_def ledger_sum_def ex_defs) (rule exI [of _ 7], simp)
  have b: "snd (handle_click
                       (snd (cmd_start store_empty 8 (Some ''bob'') ''Bob'' ''/start 7'' 2000))
                       8 (Some ''bob'') 5000)
        = store_empty\<lparr>users := [(8, bob\<lparr>balance := 1 / 5, last_click := Some 5000\<rparr>)],
                       transactions :=
                         [\<lparr>tx_user_id = 8, tx_amount = 1 / 5, tx_type = ''click'',
                            tx_description = Memo_clicker, tx_created_at = 5000\<rparr>,
                          \<lparr>tx_user_id = 7, tx_amount = referral_bonus, tx_type = ''referral_income'',
                            tx_description = Memo_referral_click ''bob'', tx_created_at = 5000\<rparr>]\<rparr>"
    by (simp add: db_defs bot_defs cfg_defs py_defs ex_defs Let_def)
  have b': "conserved (store_empty\<lparr>users := [(8, bob\<lparr>balance := 1 / 5, last_click := Some 5000\<rparr>)],
                       transactions :=
                         [\<lparr>tx_user_id = 8, tx_amount = 1 / 5, tx_type = ''click'',
                            tx_description = Memo_clicker, tx_created_at = 5000\<rparr>,
                          \<lparr>tx_user_id = 7, tx_amount = referral_bonus, tx_type = ''referral_income'',
                            tx_description = Memo_referral_click ''bob'', tx_created_at = 5000\<rparr>]\<rparr>)"
    by (simp add: conserved_def ledger_sum_def ex_defs)
  have c: "\<not> conserved (snd (cmd_start
                 (store_empty\<lparr>users := [(8, bob\<lparr>balance := 1 / 5, last_click := Some 5000\<rparr>)],
                       transactions :=
                         [\<lparr>tx_user_id = 8, tx_amount = 1 / 5, tx_type = ''click'',
                            tx_description = Memo_clicker, tx_created_at = 5000\<rparr>,
                          \<lparr>tx_user_id = 7, tx_amount = referral_bonus, tx_type = ''referral_income'',
                            tx_description = Memo_referral_click ''bob'', tx_created_at = 5000\<rparr>]\<rparr>)
                 7 (Some ''alice'') ''Alice'' ''/start'' 6000))"
    by (simp add: db_defs bot_defs py_defs ex_defs Let_def conserved_def ledger_sum_def
          referral_bonus_value)
  have z: "conserved store0"
    by (simp add: conserved_def ledger_sum_def ex_defs)
  show ?thesis using z a a' b b' c by simp
qed

text \<open>
  C2, as the code has it: when no round trip fails, a click (with its referral credit)
  and a withdrawal request keep the conservation, and so does /start for a user whose
  recorded transactions sum to zero.
\<close>

theorem conservation_without_outage:
  assumes quiet: "outages w = []" and inv: "conserved w"
  shows "conserved (snd (handle_click w uid uname now))
       \<and> conserved (snd (request_withdrawal w uid amount now))
       \<and> conserved (snd (handle_withdraw w uid data now))
       \<and> (ledger_sum (transactions w) uid = 0 \<longrightarrow>
            conserved (snd (cmd_start w uid uname first_name text now)))"
proof -
  have "conserved (snd (handle_withdraw w uid data now))"
    using inv quiet_withdrawal_conserved [OF quiet inv]
    by (simp add: handle_withdraw_def
          conserved_same_tables [OF withdraw_nonfinite_reads(1) withdraw_nonfinite_reads(2)]
          split: list.splits option.splits pyfloat.splits)
  then show ?thesis
    using quiet_handle_click_conserved [OF quiet inv] quiet_withdrawal_conserved [OF quiet inv]
      quiet_first_start_conserved [OF quiet inv]
    by simp
qed

theorem conservation_without_outage_witness:
  "outages store0 = [] \<and> conserved store0
   \<and> ledger_sum (transactions store0) 9 = 0
   \<and> conserved (snd (handle_click store0 8 (Some ''bob'') 5000))
   \<and> map_of (users (snd (handle_click store0 8 (Some ''bob'') 5000))) 7
       = Some (alice\<lparr>balance := referral_bonus\<rparr>)
   \<and> conserved (snd (cmd_start store0 9 None ''Carol'' ''/start 8'' 7000))"
proof -
  have quiet: "outages store0 = []"
    by (simp add: ex_defs)
  have inv: "conserved store0"
    by (simp add: conserved_def ledger_sum_def ex_defs)
  have fresh: "ledger_sum (transactions store0) 9 = 0"
    by (simp add: ledger_sum_def ex_defs)
  have click: "conserved (snd (handle_click store0 8 (Some ''bob'') 5000))"
    using conservation_without_outage [OF quiet inv, of 8 "Some ''bob''" 5000 0 "[]" "[]" "[]"]
    by (rule conjunct1)
  have start: "conserved (snd (cmd_start store0 9 None ''Carol'' ''/start 8'' 7000))"
    using conservation_without_outage
            [OF quiet inv, of 9 None 7000 0 "[]" "''Carol''" "''/start 8''"] fresh
    by blast
  have credit: "map_of (users (snd (handle_click store0 8 (Some ''bob'') 5000))) 7
       = Some (alice\<lparr>balance := referral_bonus\<rparr>)"
    by (simp add: db_defs bot_defs cfg_defs ex_defs Let_def)
  show ?thesis
    using quiet inv fresh click start credit by blast
qed

section \<open>The subscription gate\<close>

lemma execute_raises: "outages w = True # fs \<Longrightarrow> execute w = (True, w\<lparr>outages := fs\<rparr>)"
  by (simp add: execute_def)

text \<open>
  C10: when the round trip that asks for the sponsor statuses raises,
  \<^verbatim>\<open>get_user_sponsors_status\<close> answers the empty list and
  \<^verbatim>\<open>check_subscriptions\<close> answers \<open>True\<close>. The gated handlers then do what
  they do for a subscribed user: the withdrawal menu offers the amounts, the profile
  shows the balance, the referral counts and the cooldown, and the click answers with
  the cooldown or credits the reward, sets \<^verbatim>\<open>last_click\<close>, logs the transaction
  and runs the referral part.
\<close>

theorem outage_counts_as_subscribed:
  assumes out: "outages w = True # fs"
  shows "get_user_sponsors_status w uid = ([], w\<lparr>outages := fs\<rparr>)
       \<and> check_subscriptions w uid = (True, w\<lparr>outages := fs\<rparr>)
       \<and> handle_withdraw_menu w uid
           = (Menu_amounts (map (\<lambda>amount. ''withdraw_'' @ str_int amount) WITHDRAWAL_AMOUNTS),
              w\<lparr>outages := fs\<rparr>)
       \<and> (fs = [] \<longrightarrow>
            (\<forall>u. map_of (users w) uid = Some u \<longrightarrow>
            handle_profile w uid now
              = (Profile_view (balance u) (active_referrals w uid)
                   (length (filter (\<lambda>(k, r). referrer_id r = Some uid) (users w)))
                   (cooldown_remaining (last_click u) now), w\<lparr>outages := []\<rparr>))
          \<and> (\<forall>u remaining. map_of (users w) uid = Some u
              \<and> cooldown_remaining (last_click u) now = Some remaining \<longrightarrow>
            handle_click w uid uname now = (Click_cooldown remaining, w\<lparr>outages := []\<rparr>))
          \<and> (\<forall>u. map_of (users w) uid = Some u \<and> cooldown_remaining (last_click u) now = None \<longrightarrow>
            (\<exists>v. map_of (users (click_referral
                     (w\<lparr>outages := [],
                        users := AList.map_entry uid (\<lambda>r. r\<lparr>last_click := Some now\<rparr>)
                           (AList.map_entry uid (\<lambda>r. r\<lparr>balance := balance u + CLICK_REWARD\<rparr>) (users w)),
                        transactions := transactions w @
                          [\<lparr>tx_user_id = uid, tx_amount = CLICK_REWARD, tx_type = ''click'',
                            tx_description = Memo_clicker, tx_created_at = now\<rparr>]\<rparr>)
                     uid uname now u)) uid = Some v
               \<and> handle_click w uid uname now
                   = (Click_rewarded CLICK_REWARD (balance v),
                      click_referral
                     (w\<lparr>outages := [],
                        users := AList.map_entry uid (\<lambda>r. r\<lparr>last_click := Some now\<rparr>)
                           (AList.map_entry uid (\<lambda>r. r\<lparr>balance := balance u + CLICK_REWARD\<rparr>) (users w)),
                        transactions := transactions w @
                          [\<lparr>tx_user_id = uid, tx_amount = CLICK_REWARD, tx_type = ''click'',
                            tx_description = Memo_clicker, tx_created_at = now\<rparr>]\<rparr>)
                       uid uname now u))))"
proof -
  have rows: "get_user_sponsors_status w uid = ([], w\<lparr>outages := fs\<rparr>)"
    using out by (simp add: get_user_sponsors_status_def execute_raises)
  have sub: "check_subscriptions w uid = (True, w\<lparr>outages := fs\<rparr>)"
    by (simp add: check_subscriptions_def rows)
  have menu: "handle_withdraw_menu w uid
           = (Menu_amounts (map (\<lambda>amount. ''withdraw_'' @ str_int amount) WITHDRAWAL_AMOUNTS),
              w\<lparr>outages := fs\<rparr>)"
    by (rule gate_passed(1) [OF sub])
  have rest: "fs = [] \<longrightarrow>
            (\<forall>u. map_of (users w) uid = Some u \<longrightarrow>
            handle_profile w uid now
              = (Profile_view (balance u) (active_referrals w uid)
                   (length (filter (\<lambda>(k, r). referrer_id r = Some uid) (users w)))
                   (cooldown_remaining (last_click u) now), w\<lparr>outages := []\<rparr>))
          \<and> (\<forall>u remaining. map_of (users w) uid = Some u
              \<and> cooldown_remaining (last_click u) now = Some remaining \<longrightarrow>
            handle_click w uid uname now = (Click_cooldown remaining, w\<lparr>outages := []\<rparr>))
          \<and> (\<forall>u. map_of (users w) uid = Some u \<and> cooldown_remaining (last_click u) now = None \<longrightarrow>
            (\<exists>v. map_of (users (click_referral
                     (w\<lparr>outages := [],
                        users := AList.map_entry uid (\<lambda>r. r\<lparr>last_click := Some now\<rparr>)
                           (AList.map_entry uid (\<lambda>r. r\<lparr>balance := balance u + CLICK_REWARD\<rparr>) (users w)),
                        transactions := transactions w @
                          [\<lparr>tx_user_id = uid, tx_amount = CLICK_REWARD, tx_type = ''click'',
                            tx_description = Memo_clicker, tx_created_at = now\<rparr>]\<rparr>)
                     uid uname now u)) uid = Some v
               \<and> handle_click w uid uname now
                   = (Click_rewarded CLICK_REWARD (balance v),
                      click_referral
                     (w\<lparr>outages := [],
                        users := AList.map_entry uid (\<lambda>r. r\<lparr>last_click := Some now\<rparr>)
                           (AList.map_entry uid (\<lambda>r. r\<lparr>balance := balance u + CLICK_REWARD\<rparr>) (users w)),
                        transactions := transactions w @
                          [\<lparr>tx_user_id = uid, tx_amount = CLICK_REWARD, tx_type = ''click'',
                            tx_description = Memo_clicker, tx_created_at = now\<rparr>]\<rparr>)
                       uid uname now u)))"
  proof
    assume "fs = []"
    then have sub0: "check_subscriptions w uid = (True, w\<lparr>outages := []\<rparr>)"
      using sub by simp
    have q1: "outages (w\<lparr>outages := []\<rparr>) = []"
      by simp
    have profile: "(\<forall>u. map_of (users w) uid = Some u \<longrightarrow>
            handle_profile w uid now
              = (Profile_view (balance u) (active_referrals w uid)
                   (length (filter (\<lambda>(k, r). referrer_id r = Some uid) (users w)))
                   (cooldown_remaining (last_click u) now), w\<lparr>outages := []\<rparr>))"
      using gate_passed(2) [OF sub0 q1] by simp
    have held: "(\<forall>u remaining. map_of (users w) uid = Some u
              \<and> cooldown_remaining (last_click u) now = Some remaining \<longrightarrow>
            handle_click w uid uname now = (Click_cooldown remaining, w\<lparr>outages := []\<rparr>))"
      using gate_passed(3) [OF sub0 q1] by simp
    have reward: "(\<forall>u. map_of (users w) uid = Some u \<and> cooldown_remaining (last_click u) now = None \<longrightarrow>
            (\<exists>v. map_of (users (click_referral
                     (w\<lparr>outages := [],
                        users := AList.map_entry uid (\<lambda>r. r\<lparr>last_click := Some now\<rparr>)
                           (AList.map_entry uid (\<lambda>r. r\<lparr>balance := balance u + CLICK_REWARD\<rparr>) (users w)),
                        transactions := transactions w @
                          [\<lparr>tx_user_id = uid, tx_amount = CLICK_REWARD, tx_type = ''click'',
                            tx_description = Memo_clicker, tx_created_at = now\<rparr>]\<rparr>)
                     uid uname now u)) uid = Some v
               \<and> handle_click w uid uname now
                   = (Click_rewarded CLICK_REWARD (balance v),
                      click_referral
                     (w\<lparr>outages := [],
                        users := AList.map_entry uid (\<lambda>r. r\<lparr>last_click := Some now\<rparr>)
                           (AList.map_entry uid (\<lambda>r. r\<lparr>balance := balance u + CLICK_REWARD\<rparr>) (users w)),
                        transactions := transactions w @
                          [\<lparr>tx_user_id = uid, tx_amount = CLICK_REWARD, tx_type = ''click'',
                            tx_description = Memo_clicker, tx_created_at = now\<rparr>]\<rparr>)
                       uid uname now u)))"
    proof (intro allI impI)
      fix u
      assume a: "map_of (users w) uid = Some u \<and> cooldown_remaining (last_click u) now = None"
      have eq: "handle_click w uid uname now = click_reward (w\<lparr>outages := []\<rparr>) uid uname now u"
        using a gate_passed(5) [OF sub0 q1] by simp
      show "\<exists>v. map_of (users (click_referral
                     (w\<lparr>outages := [],
                        users := AList.map_entry uid (\<lambda>r. r\<lparr>last_click := Some now\<rparr>)
                           (AList.map_entry uid (\<lambda>r. r\<lparr>balance := balance u + CLICK_REWARD\<rparr>) (users w)),
                        transactions := transactions w @
                          [\<lparr>tx_user_id = uid, tx_amount = CLICK_REWARD, tx_type = ''click'',
                            tx_description = Memo_clicker, tx_created_at = now\<rparr>]\<rparr>)
                     uid uname now u)) uid = Some v
               \<and> handle_click w uid uname now
                   = (Click_rewarded CLICK_REWARD (balance v),
                      click_referral
                     (w\<lparr>outages := [],
                        users := AList.map_entry uid (\<lambda>r. r\<lparr>last_click := Some now\<rparr>)
                           (AList.map_entry uid (\<lambda>r. r\<lparr>balance := balance u + CLICK_REWARD\<rparr>) (users w)),
                        transactions := transactions w @
                          [\<lparr>tx_user_id = uid, tx_amount = CLICK_REWARD, tx_type = ''click'',
                            tx_description = Memo_clicker, tx_created_at = now\<rparr>]\<rparr>)
                       uid uname now u)"
        using quiet_click_reward [OF q1, of uid u now uname u] a
        by (simp add: eq)
    qed
    show "(\<forall>u. map_of (users w) uid = Some u \<longrightarrow>
            handle_profile w uid now
              = (Profile_view (balance u) (active_referrals w uid)
                   (length (filter (\<lambda>(k, r). referrer_id r = Some uid) (users w)))
                   (cooldown_remaining (last_click u) now), w\<lparr>outages := []\<rparr>))
          \<and> (\<forall>u remaining. map_of (users w) uid = Some u
              \<and> cooldown_remaining (last_click u) now = Some remaining \<longrightarrow>
            handle_click w uid uname now = (Click_cooldown remaining, w\<lparr>outages := []\<rparr>))
          \<and> (\<forall>u. map_of (users w) uid = Some u \<and> cooldown_remaining (last_click u) now = None \<longrightarrow>
            (\<exists>v. map_of (users (click_referral
                     (w\<lparr>outages := [],
                        users := AList.map_entry uid (\<lambda>r. r\<lparr>last_click := Some now\<rparr>)
                           (AList.map_entry uid (\<lambda>r. r\<lparr>balance := balance u + CLICK_REWARD\<rparr>) (users w)),
                        transactions := transactions w @
                          [\<lparr>tx_user_id = uid, tx_amount = CLICK_REWARD, tx_type = ''click'',
                            tx_description = Memo_clicker, tx_created_at = now\<rparr>]\<rparr>)
                     uid uname now u)) uid = Some v
               \<and> handle_click w uid uname now
                   = (Click_rewarded CLICK_REWARD (balance v),
                      click_referral
                     (w\<lparr>outages := [],
                        users := AList.map_entry uid (\<lambda>r. r\<lparr>last_click := Some now\<rparr>)
                           (AList.map_entry uid (\<lambda>r. r\<lparr>balance := balance u + CLICK_REWARD\<rparr>) (users w)),
                        transactions := transactions w @
                          [\<lparr>tx_user_id = uid, tx_amount = CLICK_REWARD, tx_type = ''click'',
                            tx_description = Memo_clicker, tx_created_at = now\<rparr>]\<rparr>)
                       uid uname now u)))"
      using profile held reward by blast
  qed
  show ?thesis using rows sub menu rest by blast
qed

text \<open>
  One sponsor is configured and nothing is recorded for Bob, so his subscription is not
  complete; with an outage at the status query he gets the menu and the profile, and his
  click credits him and his referrer Alice.
\<close>

theorem outage_counts_as_subscribed_witness:
  "outages (store_sponsored\<lparr>outages := [True]\<rparr>) = [True]
   \<and> check_subscriptions store_sponsored 8 = (False, store_sponsored)
   \<and> check_subscriptions (store_sponsored\<lparr>outages := [True]\<rparr>) 8 = (True, store_sponsored)
   \<and> handle_withdraw_menu (store_sponsored\<lparr>outages := [True]\<rparr>) 8
       = (Menu_amounts [''withdraw_15'', ''withdraw_25'', ''withdraw_50'', ''withdraw_100''],
          store_sponsored)
   \<and> handle_profile (store_sponsored\<lparr>outages := [True]\<rparr>) 8 5000
       = (Profile_view 0 0 0 None, store_sponsored)
   \<and> handle_click (store_sponsored\<lparr>outages := [True]\<rparr>) 8 (Some ''bob'') 5000
       = (Click_rewarded (1 / 5) (1 / 5),
          store_sponsored\<lparr>users := [(7, alice\<lparr>balance := referral_bonus\<rparr>),
                                     (8, bob\<lparr>balance := 1 / 5, last_click := Some 5000\<rparr>)],
                           transactions :=
                             [\<lparr>tx_user_id = 8, tx_amount = 1 / 5, tx_type = ''click'',
                                tx_description = Memo_clicker, tx_created_at = 5000\<rparr>,
                              \<lparr>tx_user_id = 7, tx_amount = referral_bonus, tx_type = ''referral_income'',
                                tx_description = Memo_referral_click ''bob'',
                                tx_created_at = 5000\<rparr>]\<rparr>)"
proof -
  have out: "outages (store_sponsored\<lparr>outages := [True]\<rparr>) = [True]"
    by simp
  have same: "store_sponsored\<lparr>outages := [True]\<rparr>\<lparr>outages := []\<rparr> = store_sponsored"
    by (simp add: ex_defs)
  have closed: "check_subscriptions store_sponsored 8 = (False, store_sponsored)"
    by (simp add: db_defs bot_defs ex_defs)
  have bob: "map_of (users (store_sponsored\<lparr>outages := [True]\<rparr>)) 8 = Some bob"
    "cooldown_remaining (last_click bob) 5000 = None"
    by (simp_all add: ex_defs cooldown_remaining_def)
  have out': "outages (store_sponsored\<lparr>outages := [True]\<rparr>) = True # []"
    by simp
  note gate = outage_counts_as_subscribed
                [OF out', of 8 5000 "Some ''bob''", unfolded same menu_strings]
  have sub: "check_subscriptions (store_sponsored\<lparr>outages := [True]\<rparr>) 8 = (True, store_sponsored)"
    using gate by simp
  have menu: "handle_withdraw_menu (store_sponsored\<lparr>outages := [True]\<rparr>) 8
       = (Menu_amounts [''withdraw_15'', ''withdraw_25'', ''withdraw_50'', ''withdraw_100''],
          store_sponsored)"
    using gate by simp
  have profile: "handle_profile (store_sponsored\<lparr>outages := [True]\<rparr>) 8 5000
       = (Profile_view 0 0 0 None, store_sponsored)"
    using gate bob by (simp add: ex_defs cooldown_remaining_def)
  have click: "handle_click (store_sponsored\<lparr>outages := [True]\<rparr>) 8 (Some ''bob'') 5000
       = (Click_rewarded (1 / 5) (1 / 5),
          store_sponsored\<lparr>users := [(7, alice\<lparr>balance := referral_bonus\<rparr>),
                                     (8, bob\<lparr>balance := 1 / 5, last_click := Some 5000\<rparr>)],
                           transactions :=
                             [\<lparr>tx_user_id = 8, tx_amount = 1 / 5, tx_type = ''click'',
                                tx_description = Memo_clicker, tx_created_at = 5000\<rparr>,
                              \<lparr>tx_user_id = 7, tx_amount = referral_bonus, tx_type = ''referral_income'',
                                tx_description = Memo_referral_click ''bob'',
                                tx_created_at = 5000\<rparr>]\<rparr>)"
    by (simp add: db_defs bot_defs cfg_defs ex_defs Let_def)
  show ?thesis using out closed sub menu profile click by simp
qed

text \<open>
  C5 (the subscription is complete exactly when no sponsor is configured or every
  configured sponsor is recorded as subscribed for the user; a user without recorded
  rows is not subscribed as soon as a sponsor is configured). With a sponsor configured
  and nothing recorded for Bob, an outage of the status query makes
  \<^verbatim>\<open>check_subscriptions\<close> answer \<open>True\<close>: the method of the database swallows
  the exception and answers the empty list, which the handler reads as "no sponsors",
  and the \<^verbatim>\<open>except\<close> branch of \<^verbatim>\<open>check_subscriptions\<close>, which answers
  \<open>False\<close>, is never reached.
\<close>

theorem outage_of_status_query_subscribes:
  "sponsors (store_sponsored\<lparr>outages := [True]\<rparr>) = [channel]
   \<and> map_of (user_sponsors (store_sponsored\<lparr>outages := [True]\<rparr>)) (8, 1) = None
   \<and> fst (check_subscriptions (store_sponsored\<lparr>outages := [True]\<rparr>) 8) = True"
  by (simp add: db_defs bot_defs ex_defs)

text \<open>
  When the query is answered, \<^verbatim>\<open>check_subscriptions\<close> is true exactly when no
  sponsor is configured or every configured sponsor has a row for the user with
  \<^verbatim>\<open>is_subscribed\<close> set, on the stored procedure as modelled.
\<close>

lemma all_subscribed_iff: "all_subscribed rows = (\<forall>r \<in> set rows. snd r = Some True)"
  by (induction rows) auto

lemma subscription_complete_when_query_answers:
  assumes "\<not> fst (execute w)"
  shows "fst (check_subscriptions w uid) =
           (sponsors w = [] \<or>
            (\<forall>s \<in> set (sponsors w).
               \<exists>row. map_of (user_sponsors w) (uid, sp_id s) = Some row \<and> is_subscribed row))"
proof -
  have rows: "fst (get_user_sponsors_status w uid) = rpc_get_user_sponsors_status w uid"
    using assms
    by (simp add: get_user_sponsors_status_def rpc_get_user_sponsors_status_def case_prod_beta)
  have "fst (check_subscriptions w uid)
          = (rpc_get_user_sponsors_status w uid = [] \<or> all_subscribed (rpc_get_user_sponsors_status w uid))"
    using rows by (auto simp add: check_subscriptions_def case_prod_beta)
  also have "\<dots> = (sponsors w = [] \<or>
            (\<forall>s \<in> set (sponsors w).
               \<exists>row. map_of (user_sponsors w) (uid, sp_id s) = Some row \<and> is_subscribed row))"
    by (auto simp add: rpc_get_user_sponsors_status_def all_subscribed_iff)
  finally show ?thesis .
qed

lemma subscription_complete_when_query_answers_example:
  "\<not> fst (execute store_sponsored)
   \<and> sponsors store_sponsored = [channel]
   \<and> map_of (user_sponsors store_sponsored) (8, sp_id channel) = None
   \<and> \<not> fst (check_subscriptions store_sponsored 8)
   \<and> fst (check_subscriptions store0 8)"
  using subscription_complete_when_query_answers [of store_sponsored 8]
        subscription_complete_when_query_answers [of store0 8]
  by (simp add: execute_def ex_defs)

end
